theory Spec2Isabelle
  imports Complex_Main "HOL-Library.Multiset"
begin

section \<open>Values on the wire\<close>

text \<open>
  Request and response bodies are JSON. A JavaScript number is one constructor
  (\<open>JNum\<close>), whether it holds an id, a share count or a price; no arithmetic is done on
  prices anywhere in the service (they are compared with zero and passed on), so the
  numbers are reals. A response is a status code and a JSON body.
\<close>

datatype json =
    JNull
  | JBool bool
  | JNum real
  | JStr string
  | JArr "json list"
  | JObj "(string \<times> json) list"

record response =
  status :: nat
  body :: json

text \<open>
  A thrown JavaScript error, with the properties the handlers inspect:
  \<open>error.name\<close>, \<open>err.code\<close>, \<open>err.status\<close>, \<open>err.message\<close>, \<open>err.stack\<close>.
\<close>

record js_error =
  err_name :: string
  err_code :: "string option"
  err_status :: "nat option"
  err_message :: string
  err_stack :: string

section \<open>External libraries and configuration\<close>

text \<open>
  The payload handed to \<open>jwt.sign\<close> (\<open>{ userId, email }\<close> for an access token,
  \<open>{ userId }\<close> for a refresh token) and the claims \<open>jwt.verify\<close> returns (the payload
  with the issue and expiry instants the library adds).
\<close>

record jwt_payload =
  userId :: int
  email :: "string option"

record decoded =
  d_userId :: int
  d_email :: "string option"
  d_iat :: nat
  d_exp :: nat

text \<open>
  What the service calls and does not itself define is a parameter of the model: the
  packages \<open>jsonwebtoken\<close> (\<open>jwt.sign (payload, secret, {expiresIn})\<close>,
  \<open>jwt.verify (token, secret)\<close>, and the duration in seconds it reads from an
  \<open>expiresIn\<close> string), \<open>bcryptjs\<close> (\<open>hash\<close>, \<open>compare\<close>) and Joi's
  \<open>string().email()\<close> rule, and the built-in \<open>String.prototype.toUpperCase\<close> of the
  JavaScript runtime, which maps letters of every script. The clock reading
  (\<open>Date.now()\<close>, milliseconds) that the library takes from the process is an explicit
  argument. \<open>jwt.verify\<close> either returns the claims or throws.
\<close>

record libs =
  jwt_sign :: "jwt_payload \<Rightarrow> string \<Rightarrow> string \<Rightarrow> nat \<Rightarrow> string"
  jwt_verify :: "string \<Rightarrow> string \<Rightarrow> nat \<Rightarrow> js_error + decoded"
  jwt_timespan :: "string \<Rightarrow> nat"
  bcrypt_hash :: "string \<Rightarrow> nat \<Rightarrow> string"
  bcrypt_compare :: "string \<Rightarrow> string \<Rightarrow> bool"
  joi_email :: "string \<Rightarrow> bool"
  toUpperCase :: "string \<Rightarrow> string"

text \<open>The variables of \<open>process.env\<close> the code reads.\<close>

record env =
  JWT_ACCESS_SECRET :: string
  JWT_REFRESH_SECRET :: string
  JWT_ACCESS_EXPIRY :: "string option"
  JWT_REFRESH_EXPIRY :: "string option"
  NODE_ENV :: "string option"

text \<open>\<open>a || b\<close> on a possibly undefined string: undefined and the empty string are falsy.\<close>

definition js_or :: "string option \<Rightarrow> string \<Rightarrow> string" where
  "js_or a b = (case a of None \<Rightarrow> b | Some s \<Rightarrow> if s = [] then b else s)"

section \<open>Token codec (utils/jwt.js)\<close>

definition generateAccessToken :: "libs \<Rightarrow> env \<Rightarrow> nat \<Rightarrow> jwt_payload \<Rightarrow> string" where
  "generateAccessToken lib ev now payload =
     jwt_sign lib payload (JWT_ACCESS_SECRET ev) (js_or (JWT_ACCESS_EXPIRY ev) ''10m'') now"

definition generateRefreshToken :: "libs \<Rightarrow> env \<Rightarrow> nat \<Rightarrow> jwt_payload \<Rightarrow> string" where
  "generateRefreshToken lib ev now payload =
     jwt_sign lib payload (JWT_REFRESH_SECRET ev) (js_or (JWT_REFRESH_EXPIRY ev) ''7d'') now"

definition verifyAccessToken :: "libs \<Rightarrow> env \<Rightarrow> nat \<Rightarrow> string \<Rightarrow> js_error + decoded" where
  "verifyAccessToken lib ev now token = jwt_verify lib token (JWT_ACCESS_SECRET ev) now"

definition verifyRefreshToken :: "libs \<Rightarrow> env \<Rightarrow> nat \<Rightarrow> string \<Rightarrow> js_error + decoded" where
  "verifyRefreshToken lib ev now token = jwt_verify lib token (JWT_REFRESH_SECRET ev) now"

section \<open>Auth gate (middleware/authMiddleware.js)\<close>

text \<open>
  \<open>String.prototype.split\<close> with a one-character separator: every occurrence of the
  separator ends a field, so the result is never empty and \<open>''''\<close> splits to one empty
  field.
\<close>

fun js_split :: "char \<Rightarrow> string \<Rightarrow> string list" where
  "js_split c [] = [[]]"
| "js_split c (x # xs) =
     (if x = c then [] # js_split c xs
      else (case js_split c xs of [] \<Rightarrow> [[x]] | w # ws \<Rightarrow> (x # w) # ws))"

text \<open>
  \<open>authHeader && authHeader.split(' ')[1]\<close>: \<open>None\<close> is \<open>undefined\<close> (no header, or
  no second field); an empty header yields the empty string itself.
\<close>

definition header_token :: "string option \<Rightarrow> string option" where
  "header_token authHeader =
     (case authHeader of
        None \<Rightarrow> None
      | Some h \<Rightarrow>
          if h = [] then Some []
          else (case js_split (CHR '' '') h of _ # t # _ \<Rightarrow> Some t | _ \<Rightarrow> None))"

definition error_response :: "nat \<Rightarrow> string \<Rightarrow> response" where
  "error_response code msg = \<lparr>status = code, body = JObj [(''error'', JStr msg)]\<rparr>"

text \<open>
  The middleware either ends the request with a response (\<open>Inl\<close>) or calls \<open>next()\<close>
  with the decoded claims stored in \<open>req.user\<close> (\<open>Inr\<close>). \<open>!token\<close> holds for
  \<open>undefined\<close> and for the empty string.
\<close>

definition authenticateToken ::
  "libs \<Rightarrow> env \<Rightarrow> nat \<Rightarrow> (string \<Rightarrow> string option) \<Rightarrow> response + decoded" where
  "authenticateToken lib ev now headers =
     (case header_token (headers ''authorization'') of
        None \<Rightarrow> Inl (error_response 401 ''Access token required'')
      | Some token \<Rightarrow>
          if token = [] then Inl (error_response 401 ''Access token required'')
          else
            (case verifyAccessToken lib ev now token of
               Inr dec \<Rightarrow> Inr dec
             | Inl error \<Rightarrow>
                 if err_name error = ''TokenExpiredError''
                   then Inl (error_response 401 ''Access token expired'')
                 else if err_name error = ''JsonWebTokenError''
                   then Inl (error_response 401 ''Invalid access token'')
                 else Inl (error_response 500 ''Token verification failed'')))"

section \<open>Global error handler (middleware/errorHandler.js)\<close>

definition errorHandler :: "env \<Rightarrow> js_error \<Rightarrow> response" where
  "errorHandler ev err =
     (if err_code err = Some ''P2002'' then
        \<lparr>status = 409,
         body = JObj [(''error'', JStr ''Unique constraint violation''),
                      (''details'', JStr ''A record with this data already exists'')]\<rparr>
      else if err_code err = Some ''P2025'' then error_response 404 ''Record not found''
      else if err_name err = ''JsonWebTokenError'' then error_response 401 ''Invalid token''
      else if err_name err = ''TokenExpiredError'' then error_response 401 ''Token expired''
      else
        \<lparr>status = (case err_status err of None \<Rightarrow> 500 | Some s \<Rightarrow> if s = 0 then 500 else s),
         body = JObj ((''error'',
                       JStr (if err_message err = [] then ''Internal server error''
                             else err_message err))
                      # (if NODE_ENV ev = Some ''development''
                         then [(''stack'', JStr (err_stack err))] else []))\<rparr>)"

section \<open>The stores (prisma/schema.prisma)\<close>

text \<open>
  The two tables of the Prisma schema. \<open>id\<close> is \<open>@id @default(autoincrement())\<close>:
  the store keeps the next value of each sequence. \<open>User.email\<close> is \<open>@unique\<close>, and
  \<open>Trade.userId\<close> is a relation to \<open>User.id\<close>, which the database enforces as a
  foreign key. Strings are compared exactly. A \<open>DateTime\<close> is its count of
  milliseconds since the epoch, which is what \<open>getTime()\<close> reads back. Limits of
  the database engine that the schema does not declare (column widths, the range of
  an integer column) are not part of the model.
\<close>

record user =
  u_id :: int
  u_email :: string
  u_password :: string

record trade =
  t_id :: int
  t_type :: string
  t_userId :: int
  t_symbol :: string
  t_shares :: int
  t_price :: real
  t_timestamp :: nat

record database =
  users :: "user list"
  trades :: "trade list"
  user_seq :: int
  trade_seq :: int

text \<open>The error Prisma throws for a request the database refused; the stack text is left empty.\<close>

definition prisma_error :: "string \<Rightarrow> string \<Rightarrow> js_error" where
  "prisma_error code msg =
     \<lparr>err_name = ''PrismaClientKnownRequestError'', err_code = Some code,
      err_status = None, err_message = msg, err_stack = []\<rparr>"

definition user_findUnique_email :: "database \<Rightarrow> string \<Rightarrow> user option" where
  "user_findUnique_email db e = find (\<lambda>u. u_email u = e) (users db)"

definition user_findUnique_id :: "database \<Rightarrow> int \<Rightarrow> user option" where
  "user_findUnique_id db i = find (\<lambda>u. u_id u = i) (users db)"

text \<open>\<open>prisma.user.create\<close>: the unique constraint on the email answers \<open>P2002\<close>.\<close>

definition user_create :: "database \<Rightarrow> string \<Rightarrow> string \<Rightarrow> js_error + (user \<times> database)" where
  "user_create db e pw =
     (if user_findUnique_email db e \<noteq> None
      then Inl (prisma_error ''P2002'' ''Unique constraint failed on the fields: (`email`)'')
      else
        (let u = \<lparr>u_id = user_seq db, u_email = e, u_password = pw\<rparr>
         in Inr (u, db\<lparr>users := users db @ [u], user_seq := user_seq db + 1\<rparr>)))"

record trade_data =
  n_type :: string
  n_userId :: int
  n_symbol :: string
  n_shares :: int
  n_price :: real
  n_timestamp :: nat

text \<open>\<open>prisma.trade.create\<close>: the foreign key on \<open>user_id\<close> answers \<open>P2003\<close>.\<close>

definition trade_create :: "database \<Rightarrow> trade_data \<Rightarrow> js_error + (trade \<times> database)" where
  "trade_create db d =
     (if user_findUnique_id db (n_userId d) = None
      then Inl (prisma_error ''P2003'' ''Foreign key constraint failed on the field: `user_id`'')
      else
        (let t = \<lparr>t_id = trade_seq db, t_type = n_type d, t_userId = n_userId d,
                  t_symbol = n_symbol d, t_shares = n_shares d, t_price = n_price d,
                  t_timestamp = n_timestamp d\<rparr>
         in Inr (t, db\<lparr>trades := trades db @ [t], trade_seq := trade_seq db + 1\<rparr>)))"

record trade_where =
  w_type :: "string option"
  w_userId :: "int option"

definition matches :: "trade_where \<Rightarrow> trade \<Rightarrow> bool" where
  "matches w t =
     ((case w_type w of None \<Rightarrow> True | Some ty \<Rightarrow> t_type t = ty) \<and>
      (case w_userId w of None \<Rightarrow> True | Some i \<Rightarrow> t_userId t = i))"

text \<open>\<open>prisma.trade.findMany ({ where, orderBy: { id: 'asc' } })\<close>.\<close>

definition trade_findMany :: "database \<Rightarrow> trade_where \<Rightarrow> trade list" where
  "trade_findMany db w = sort_key t_id (filter (matches w) (trades db))"

definition trade_findUnique :: "database \<Rightarrow> int \<Rightarrow> trade option" where
  "trade_findUnique db i = find (\<lambda>t. t_id t = i) (trades db)"

section \<open>Validation (utils/validationSchemas.js)\<close>

text \<open>
  A field of a body, a query or the path parameters is absent (\<open>None\<close>) or a JSON
  value. Joi reads a numeric string in a number field as the number it spells and hands
  the number on, so such a field is represented by \<open>JNum\<close>. \<open>Joi.number()\<close> refuses a
  number outside the safe range; \<open>integer()\<close> asks for a whole number;
  \<open>Joi.string()\<close> refuses the empty string.
\<close>

definition joi_number :: "json option \<Rightarrow> real option" where
  "joi_number v =
     (case v of
        Some (JNum r) \<Rightarrow> if \<bar>r\<bar> \<le> 9007199254740991 then Some r else None
      | _ \<Rightarrow> None)"

definition joi_integer :: "real \<Rightarrow> bool" where
  "joi_integer r = (r = of_int \<lfloor>r\<rfloor>)"

definition joi_string :: "json option \<Rightarrow> string option" where
  "joi_string v = (case v of Some (JStr s) \<Rightarrow> if s = [] then None else Some s | _ \<Rightarrow> None)"

record cred_body =
  c_email :: "json option"
  c_password :: "json option"

definition signupSchema :: "libs \<Rightarrow> cred_body \<Rightarrow> bool" where
  "signupSchema lib b =
     ((case joi_string (c_email b) of Some e \<Rightarrow> joi_email lib e | None \<Rightarrow> False) \<and>
      (case joi_string (c_password b) of Some p \<Rightarrow> 6 \<le> length p | None \<Rightarrow> False))"

definition loginSchema :: "libs \<Rightarrow> cred_body \<Rightarrow> bool" where
  "loginSchema lib b =
     ((case joi_string (c_email b) of Some e \<Rightarrow> joi_email lib e | None \<Rightarrow> False) \<and>
      joi_string (c_password b) \<noteq> None)"

record trade_body =
  b_type :: "json option"
  b_user_id :: "json option"
  b_symbol :: "json option"
  b_shares :: "json option"
  b_price :: "json option"

definition createTradeSchema :: "trade_body \<Rightarrow> bool" where
  "createTradeSchema b =
     ((b_type b = Some (JStr ''buy'') \<or> b_type b = Some (JStr ''sell'')) \<and>
      (case joi_number (b_user_id b) of Some r \<Rightarrow> joi_integer r \<and> 0 < r | None \<Rightarrow> False) \<and>
      joi_string (b_symbol b) \<noteq> None \<and>
      (case joi_number (b_shares b) of
         Some r \<Rightarrow> joi_integer r \<and> 1 \<le> r \<and> r \<le> 100 | None \<Rightarrow> False) \<and>
      (case joi_number (b_price b) of Some r \<Rightarrow> 0 < r | None \<Rightarrow> False))"

record trade_query =
  q_type :: "json option"
  q_user_id :: "json option"

definition tradeQuerySchema :: "trade_query \<Rightarrow> bool" where
  "tradeQuerySchema q =
     ((q_type q = None \<or> q_type q = Some (JStr ''buy'') \<or> q_type q = Some (JStr ''sell'')) \<and>
      (q_user_id q = None \<or>
       (case joi_number (q_user_id q) of Some r \<Rightarrow> joi_integer r \<and> 0 < r | None \<Rightarrow> False)))"

definition tradeIdSchema :: "json option \<Rightarrow> bool" where
  "tradeIdSchema i =
     (case joi_number i of Some r \<Rightarrow> joi_integer r \<and> 0 < r | None \<Rightarrow> False)"

text \<open>
  Modelled from the spec: \<open>middleware/validationMiddleware.js\<close> (the \<open>validate\<close>
  middleware the routes install) is not among the sources. By the spec a violation of
  the schema fails with \<open>ValidationFailed\<close> (always 400) at the boundary, before the
  handler and the store are reached; the tests read \<open>error: 'Validation failed'\<close>
  from the body. Any further detail fields of that body are not modelled.
\<close>

definition validate :: "('a \<Rightarrow> bool) \<Rightarrow> 'a \<Rightarrow> response + 'a" where
  "validate schema v = (if schema v then Inr v else Inl (error_response 400 ''Validation failed''))"


text \<open>
  What a handler reads from a field that has passed validation: the string, the
  number, and the integer a whole number is. (\<open>parseFloat\<close> and \<open>parseInt\<close> of such a
  number return it.)
\<close>

definition str_of :: "json option \<Rightarrow> string" where
  "str_of v = (case v of Some (JStr s) \<Rightarrow> s | _ \<Rightarrow> [])"

definition num_of :: "json option \<Rightarrow> real" where
  "num_of v = (case v of Some (JNum r) \<Rightarrow> r | _ \<Rightarrow> 0)"

definition int_of :: "json option \<Rightarrow> int" where
  "int_of v = \<lfloor>num_of v\<rfloor>"

section \<open>Account service (routes/authRoutes.js)\<close>

definition user_info :: "int \<Rightarrow> string \<Rightarrow> json" where
  "user_info i e = JObj [(''id'', JNum (of_int i)), (''email'', JStr e)]"

text \<open>
  The signup handler from \<open>bcrypt.hash\<close> on. The handler awaits the lookup before it
  awaits the insert, so the store this part runs on is the store at the time of the
  insert; \<open>signup_handler\<close> below runs it on the store the lookup saw. An error thrown
  by the insert goes to \<open>next(error)\<close>, that is to \<open>errorHandler\<close>.
\<close>

definition signup_create ::
  "libs \<Rightarrow> env \<Rightarrow> nat \<Rightarrow> database \<Rightarrow> string \<Rightarrow> string \<Rightarrow> response \<times> database" where
  "signup_create lib ev now db e password =
     (let saltRounds = 12;
          hashedPassword = bcrypt_hash lib password saltRounds
      in case user_create db e hashedPassword of
           Inl error \<Rightarrow> (errorHandler ev error, db)
         | Inr (u, db') \<Rightarrow>
             (let accessToken =
                    generateAccessToken lib ev now \<lparr>userId = u_id u, email = Some (u_email u)\<rparr>;
                  refreshToken =
                    generateRefreshToken lib ev now \<lparr>userId = u_id u, email = None\<rparr>
              in (\<lparr>status = 201,
                   body = JObj [(''message'', JStr ''User created successfully''),
                                (''user'', user_info (u_id u) (u_email u)),
                                (''accessToken'', JStr accessToken),
                                (''refreshToken'', JStr refreshToken)]\<rparr>, db')))"

definition signup_handler ::
  "libs \<Rightarrow> env \<Rightarrow> nat \<Rightarrow> database \<Rightarrow> cred_body \<Rightarrow> response \<times> database" where
  "signup_handler lib ev now db b =
     (let e = str_of (c_email b); password = str_of (c_password b)
      in case user_findUnique_email db e of
           Some existingUser \<Rightarrow> (error_response 409 ''User with this email already exists'', db)
         | None \<Rightarrow> signup_create lib ev now db e password)"

definition signup :: "libs \<Rightarrow> env \<Rightarrow> nat \<Rightarrow> database \<Rightarrow> cred_body \<Rightarrow> response \<times> database" where
  "signup lib ev now db b =
     (case validate (signupSchema lib) b of
        Inl r \<Rightarrow> (r, db)
      | Inr b' \<Rightarrow> signup_handler lib ev now db b')"

definition login_handler :: "libs \<Rightarrow> env \<Rightarrow> nat \<Rightarrow> database \<Rightarrow> cred_body \<Rightarrow> response" where
  "login_handler lib ev now db b =
     (let e = str_of (c_email b); password = str_of (c_password b)
      in case user_findUnique_email db e of
           None \<Rightarrow> error_response 401 ''Invalid email or password''
         | Some u \<Rightarrow>
             if \<not> bcrypt_compare lib password (u_password u)
             then error_response 401 ''Invalid email or password''
             else
               (let accessToken =
                      generateAccessToken lib ev now \<lparr>userId = u_id u, email = Some (u_email u)\<rparr>;
                    refreshToken =
                      generateRefreshToken lib ev now \<lparr>userId = u_id u, email = None\<rparr>
                in \<lparr>status = 200,
                    body = JObj [(''message'', JStr ''Login successful''),
                                 (''user'', user_info (u_id u) (u_email u)),
                                 (''accessToken'', JStr accessToken),
                                 (''refreshToken'', JStr refreshToken)]\<rparr>))"

definition login :: "libs \<Rightarrow> env \<Rightarrow> nat \<Rightarrow> database \<Rightarrow> cred_body \<Rightarrow> response" where
  "login lib ev now db b =
     (case validate (loginSchema lib) b of
        Inl r \<Rightarrow> r
      | Inr b' \<Rightarrow> login_handler lib ev now db b')"

text \<open>
  \<open>POST /token/refresh\<close> has no schema. \<open>refreshToken\<close> is the body's field when it
  is a string, \<open>None\<close> when it is absent. The \<open>catch\<close> block answers the two JWT
  errors itself and passes anything else to \<open>errorHandler\<close>.
\<close>

definition token_refresh :: "libs \<Rightarrow> env \<Rightarrow> nat \<Rightarrow> database \<Rightarrow> string option \<Rightarrow> response" where
  "token_refresh lib ev now db refreshToken =
     (case refreshToken of
        None \<Rightarrow> error_response 401 ''Refresh token required''
      | Some tok \<Rightarrow>
          if tok = [] then error_response 401 ''Refresh token required''
          else
            (case verifyRefreshToken lib ev now tok of
               Inl error \<Rightarrow>
                 if err_name error = ''TokenExpiredError''
                   then error_response 401 ''Refresh token expired''
                 else if err_name error = ''JsonWebTokenError''
                   then error_response 401 ''Invalid refresh token''
                 else errorHandler ev error
             | Inr dec \<Rightarrow>
                 (case user_findUnique_id db (d_userId dec) of
                    None \<Rightarrow> error_response 401 ''User not found''
                  | Some u \<Rightarrow>
                      (let newAccessToken =
                             generateAccessToken lib ev now
                               \<lparr>userId = u_id u, email = Some (u_email u)\<rparr>
                       in \<lparr>status = 200,
                           body = JObj [(''accessToken'', JStr newAccessToken)]\<rparr>))))"

section \<open>Trade service (routes/tradesRoutes.js)\<close>

definition responseTradeData :: "trade \<Rightarrow> json" where
  "responseTradeData t =
     JObj [(''id'', JNum (of_int (t_id t))),
           (''type'', JStr (t_type t)),
           (''user_id'', JNum (of_int (t_userId t))),
           (''symbol'', JStr (t_symbol t)),
           (''shares'', JNum (of_int (t_shares t))),
           (''price'', JNum (t_price t)),
           (''timestamp'', JNum (of_nat (t_timestamp t)))]"

definition post_trades_handler ::
  "libs \<Rightarrow> env \<Rightarrow> nat \<Rightarrow> database \<Rightarrow> trade_body \<Rightarrow> response \<times> database" where
  "post_trades_handler lib ev now db b =
     (let ty = str_of (b_type b);
          user_id = int_of (b_user_id b);
          symbol = str_of (b_symbol b);
          shares = int_of (b_shares b);
          price = num_of (b_price b)
      in case trade_create db
                \<lparr>n_type = ty, n_userId = user_id, n_symbol = toUpperCase lib symbol,
                 n_shares = shares, n_price = price, n_timestamp = now\<rparr> of
           Inl error \<Rightarrow> (errorHandler ev error, db)
         | Inr (t, db') \<Rightarrow> (\<lparr>status = 201, body = responseTradeData t\<rparr>, db'))"

text \<open>\<open>router.use(authenticateToken)\<close> runs before the schema of every trade route.\<close>

definition post_trades ::
  "libs \<Rightarrow> env \<Rightarrow> nat \<Rightarrow> database \<Rightarrow> (string \<Rightarrow> string option) \<Rightarrow> trade_body
     \<Rightarrow> response \<times> database" where
  "post_trades lib ev now db headers b =
     (case authenticateToken lib ev now headers of
        Inl r \<Rightarrow> (r, db)
      | Inr req_user \<Rightarrow>
          (case validate createTradeSchema b of
             Inl r \<Rightarrow> (r, db)
           | Inr b' \<Rightarrow> post_trades_handler lib ev now db b'))"

text \<open>
  The filter of \<open>GET /trades\<close>: \<open>if (type) where.type = type\<close> and
  \<open>if (user_id) where.userId = parseInt(user_id)\<close>; the empty string and zero are
  falsy.
\<close>

definition build_where :: "trade_query \<Rightarrow> trade_where" where
  "build_where q =
     \<lparr>w_type = (if str_of (q_type q) = [] then None else Some (str_of (q_type q))),
      w_userId = (if num_of (q_user_id q) = 0 then None else Some (int_of (q_user_id q)))\<rparr>"

definition list_item :: "trade \<Rightarrow> json" where
  "list_item t =
     JObj [(''id'', JNum (of_int (t_id t))),
           (''type'', JStr (t_type t)),
           (''user_id'', JNum (of_int (t_userId t))),
           (''symbol'', JStr (t_symbol t)),
           (''shares'', JNum (of_int (t_shares t))),
           (''price'', JNum (t_price t)),
           (''timestamp'', JNum (of_nat (t_timestamp t)))]"

definition get_trades_handler :: "database \<Rightarrow> trade_query \<Rightarrow> response" where
  "get_trades_handler db q =
     \<lparr>status = 200, body = JArr (map list_item (trade_findMany db (build_where q)))\<rparr>"

definition get_trades ::
  "libs \<Rightarrow> env \<Rightarrow> nat \<Rightarrow> database \<Rightarrow> (string \<Rightarrow> string option) \<Rightarrow> trade_query \<Rightarrow> response" where
  "get_trades lib ev now db headers q =
     (case authenticateToken lib ev now headers of
        Inl r \<Rightarrow> r
      | Inr req_user \<Rightarrow>
          (case validate tradeQuerySchema q of
             Inl r \<Rightarrow> r
           | Inr q' \<Rightarrow> get_trades_handler db q'))"

definition responseData :: "trade \<Rightarrow> json" where
  "responseData t =
     JObj [(''id'', JNum (of_int (t_id t))),
           (''type'', JStr (t_type t)),
           (''user_id'', JNum (of_int (t_userId t))),
           (''symbol'', JStr (t_symbol t)),
           (''shares'', JNum (of_int (t_shares t))),
           (''price'', JNum (t_price t)),
           (''timestamp'', JNum (of_nat (t_timestamp t)))]"

definition get_trade_handler :: "database \<Rightarrow> json option \<Rightarrow> response" where
  "get_trade_handler db i =
     (case trade_findUnique db (int_of i) of
        None \<Rightarrow> error_response 404 ''Trade not found''
      | Some t \<Rightarrow> \<lparr>status = 200, body = responseData t\<rparr>)"

definition get_trade ::
  "libs \<Rightarrow> env \<Rightarrow> nat \<Rightarrow> database \<Rightarrow> (string \<Rightarrow> string option) \<Rightarrow> json option \<Rightarrow> response" where
  "get_trade lib ev now db headers i =
     (case authenticateToken lib ev now headers of
        Inl r \<Rightarrow> r
      | Inr req_user \<Rightarrow>
          (case validate tradeIdSchema i of
             Inl r \<Rightarrow> r
           | Inr i' \<Rightarrow> get_trade_handler db i'))"

definition method_not_allowed :: "string \<Rightarrow> response" where
  "method_not_allowed msg =
     \<lparr>status = 405, body = JObj [(''error'', JStr ''Method not allowed''), (''message'', JStr msg)]\<rparr>"

section \<open>The application (server.js)\<close>

text \<open>
  The requests of the routes above. The three refused methods carry the raw path
  segment after \<open>/trades/\<close>: no schema is installed on them and the handlers read
  nothing of the request.
\<close>

datatype api_request =
    PostSignup cred_body
  | PostLogin cred_body
  | PostTokenRefresh "string option"
  | PostTrades "string \<Rightarrow> string option" trade_body
  | GetTrades "string \<Rightarrow> string option" trade_query
  | GetTrade "string \<Rightarrow> string option" "json option"
  | PutTrade "string \<Rightarrow> string option" string
  | PatchTrade "string \<Rightarrow> string option" string
  | DeleteTrade "string \<Rightarrow> string option" string

text \<open>One request against the server: the response and the stores afterwards.\<close>

fun serve :: "libs \<Rightarrow> env \<Rightarrow> nat \<Rightarrow> database \<Rightarrow> api_request \<Rightarrow> response \<times> database" where
  "serve lib ev now db (PostSignup b) = signup lib ev now db b"
| "serve lib ev now db (PostLogin b) = (login lib ev now db b, db)"
| "serve lib ev now db (PostTokenRefresh t) = (token_refresh lib ev now db t, db)"
| "serve lib ev now db (PostTrades h b) = post_trades lib ev now db h b"
| "serve lib ev now db (GetTrades h q) = (get_trades lib ev now db h q, db)"
| "serve lib ev now db (GetTrade h i) = (get_trade lib ev now db h i, db)"
| "serve lib ev now db (PutTrade h i) =
     (case authenticateToken lib ev now h of
        Inl r \<Rightarrow> (r, db)
      | Inr req_user \<Rightarrow> (method_not_allowed ''Trade modification is not permitted'', db))"
| "serve lib ev now db (PatchTrade h i) =
     (case authenticateToken lib ev now h of
        Inl r \<Rightarrow> (r, db)
      | Inr req_user \<Rightarrow> (method_not_allowed ''Trade modification is not permitted'', db))"
| "serve lib ev now db (DeleteTrade h i) =
     (case authenticateToken lib ev now h of
        Inl r \<Rightarrow> (r, db)
      | Inr req_user \<Rightarrow> (method_not_allowed ''Trade deletion is not permitted'', db))"


section \<open>The contract of the token library, and an instance to run the model\<close>

definition throws :: "string \<Rightarrow> js_error + 'a \<Rightarrow> bool" where
  "throws nm r = (case r of Inl e \<Rightarrow> err_name e = nm | Inr _ \<Rightarrow> False)"

text \<open>
  What the service relies on from \<open>jsonwebtoken\<close> with its default algorithm (HS256),
  read symbolically: a token verifies only under the secret that signed it
  (\<open>JsonWebTokenError\<close> otherwise); under that secret it is refused with
  \<open>TokenExpiredError\<close> from the second \<open>iat + expiresIn\<close> on, and before that the
  claims are the payload with \<open>iat\<close> and \<open>exp\<close> added. The library's clock counts
  seconds (\<open>Math.floor (Date.now() / 1000)\<close>).
\<close>

definition jwt_contract :: "libs \<Rightarrow> bool" where
  "jwt_contract lib =
     (\<forall>p k e t k' t'.
        (k' \<noteq> k \<longrightarrow> throws ''JsonWebTokenError'' (jwt_verify lib (jwt_sign lib p k e t) k' t')) \<and>
        (k' = k \<and> t div 1000 + jwt_timespan lib e \<le> t' div 1000 \<longrightarrow>
           throws ''TokenExpiredError'' (jwt_verify lib (jwt_sign lib p k e t) k' t')) \<and>
        (k' = k \<and> t' div 1000 < t div 1000 + jwt_timespan lib e \<longrightarrow>
           jwt_verify lib (jwt_sign lib p k e t) k' t' =
             Inr \<lparr>d_userId = userId p, d_email = email p, d_iat = t div 1000,
                  d_exp = t div 1000 + jwt_timespan lib e\<rparr>))"

text \<open>
  What is used of \<open>String.prototype.toUpperCase\<close>. A string is a list of bytes here
  (UTF-8), and the built-in maps letters of every script, so it is not defined in the
  model. On a string of ASCII bytes it is known in full: the letters \<open>a\<close> to \<open>z\<close>
  become \<open>A\<close> to \<open>Z\<close> and every other character stays. Nothing is assumed of it on
  any other string.
\<close>

definition ascii_upper_char :: "char \<Rightarrow> char" where
  "ascii_upper_char c =
     (case map_of (zip ''abcdefghijklmnopqrstuvwxyz'' ''ABCDEFGHIJKLMNOPQRSTUVWXYZ'') c of
        Some d \<Rightarrow> d
      | None \<Rightarrow> c)"

definition is_lower :: "char \<Rightarrow> bool" where
  "is_lower c = (c \<in> set ''abcdefghijklmnopqrstuvwxyz'')"

definition is_ascii :: "string \<Rightarrow> bool" where
  "is_ascii s = list_all (\<lambda>c. \<not> digit7 c) s"

definition upper_contract :: "libs \<Rightarrow> bool" where
  "upper_contract lib = (\<forall>s. is_ascii s \<longrightarrow> toUpperCase lib s = map ascii_upper_char s)"

text \<open>
  An instance of the library parameter on which the model runs on concrete requests.
  Its tokens are written in clear: the signing key, the payload and the two instants,
  each field preceded by its length in unary. The key inside the token stands for the
  signature. Passwords are "hashed" by a prefix, an email is any string with an
  \<open>@\<close>, and \<open>toUpperCase\<close> is the ASCII table on every string.
\<close>

definition put_nat :: "nat \<Rightarrow> string" where
  "put_nat n = replicate n (CHR ''1'') @ ''.''"

definition get_nat :: "string \<Rightarrow> (nat \<times> string) option" where
  "get_nat s =
     (case dropWhile (\<lambda>c. c = CHR ''1'') s of
        [] \<Rightarrow> None
      | c # r \<Rightarrow>
          if c = CHR ''.'' then Some (length (takeWhile (\<lambda>c. c = CHR ''1'') s), r) else None)"

definition put_str :: "string \<Rightarrow> string" where
  "put_str s = put_nat (length s) @ s"

definition get_str :: "string \<Rightarrow> (string \<times> string) option" where
  "get_str s =
     (case get_nat s of
        None \<Rightarrow> None
      | Some (n, r) \<Rightarrow> if n \<le> length r then Some (take n r, drop n r) else None)"

definition put_int :: "int \<Rightarrow> string" where
  "put_int i = (if i < 0 then CHR ''-'' else CHR ''+'') # put_nat (nat \<bar>i\<bar>)"

definition get_int :: "string \<Rightarrow> (int \<times> string) option" where
  "get_int s =
     (case s of
        [] \<Rightarrow> None
      | c # r \<Rightarrow>
          (case get_nat r of
             None \<Rightarrow> None
           | Some (n, r') \<Rightarrow>
               if c = CHR ''+'' then Some (int n, r')
               else if c = CHR ''-'' then Some (- int n, r')
               else None))"

definition put_opt :: "string option \<Rightarrow> string" where
  "put_opt v = (case v of None \<Rightarrow> ''n'' | Some s \<Rightarrow> CHR ''s'' # put_str s)"

definition get_opt :: "string \<Rightarrow> (string option \<times> string) option" where
  "get_opt s =
     (case s of
        [] \<Rightarrow> None
      | c # r \<Rightarrow>
          if c = CHR ''n'' then Some (None, r)
          else if c = CHR ''s'' then
            (case get_str r of None \<Rightarrow> None | Some (v, r') \<Rightarrow> Some (Some v, r'))
          else None)"

definition ref_timespan :: "string \<Rightarrow> nat" where
  "ref_timespan e = (if e = ''10m'' then 600 else if e = ''7d'' then 604800 else 0)"

definition ref_sign :: "jwt_payload \<Rightarrow> string \<Rightarrow> string \<Rightarrow> nat \<Rightarrow> string" where
  "ref_sign p k e t =
     put_str k @ put_int (userId p) @ put_opt (email p) @ put_nat (t div 1000)
       @ put_nat (t div 1000 + ref_timespan e)"

definition ref_decode :: "string \<Rightarrow> (string \<times> decoded) option" where
  "ref_decode s =
     (case get_str s of None \<Rightarrow> None | Some (k, s1) \<Rightarrow>
     (case get_int s1 of None \<Rightarrow> None | Some (i, s2) \<Rightarrow>
     (case get_opt s2 of None \<Rightarrow> None | Some (em, s3) \<Rightarrow>
     (case get_nat s3 of None \<Rightarrow> None | Some (ia, s4) \<Rightarrow>
     (case get_nat s4 of None \<Rightarrow> None | Some (ex, s5) \<Rightarrow>
        if s5 = [] then Some (k, \<lparr>d_userId = i, d_email = em, d_iat = ia, d_exp = ex\<rparr>)
        else None)))))"

definition jwt_error :: "string \<Rightarrow> string \<Rightarrow> js_error" where
  "jwt_error nm msg =
     \<lparr>err_name = nm, err_code = None, err_status = None, err_message = msg, err_stack = []\<rparr>"

definition ref_verify :: "string \<Rightarrow> string \<Rightarrow> nat \<Rightarrow> js_error + decoded" where
  "ref_verify token secret now =
     (case ref_decode token of
        None \<Rightarrow> Inl (jwt_error ''JsonWebTokenError'' ''jwt malformed'')
      | Some (k, dec) \<Rightarrow>
          if k \<noteq> secret then Inl (jwt_error ''JsonWebTokenError'' ''invalid signature'')
          else if d_exp dec \<le> now div 1000 then Inl (jwt_error ''TokenExpiredError'' ''jwt expired'')
          else Inr dec)"

definition ref_libs :: libs where
  "ref_libs =
     \<lparr>jwt_sign = ref_sign, jwt_verify = ref_verify, jwt_timespan = ref_timespan,
      bcrypt_hash = (\<lambda>pw rounds. ''$2a$'' @ pw),
      bcrypt_compare = (\<lambda>pw h. h = ''$2a$'' @ pw),
      joi_email = (\<lambda>e. CHR ''@'' \<in> set e),
      toUpperCase = map ascii_upper_char\<rparr>"

text \<open>A configuration with two different secrets and the default lifetimes.\<close>

definition ref_env :: env where
  "ref_env =
     \<lparr>JWT_ACCESS_SECRET = ''a'', JWT_REFRESH_SECRET = ''r'',
      JWT_ACCESS_EXPIRY = None, JWT_REFRESH_EXPIRY = None, NODE_ENV = None\<rparr>"


section \<open>Sample stores and requests\<close>


definition db1 :: database where
  "db1 = \<lparr>users = [\<lparr>u_id = 1, u_email = ''a@b.com'', u_password = ''$2a$secret1''\<rparr>],
          trades = [], user_seq = 2, trade_seq = 1\<rparr>"

text \<open>
  The headers of a caller who presents, as a bearer credential, the access token issued
  at instant 0 to the account with the given id.
\<close>

definition ref_headers :: "int \<Rightarrow> string \<Rightarrow> string option" where
  "ref_headers i =
     [''authorization'' \<mapsto>
        ''Bearer '' @ generateAccessToken ref_libs ref_env 0 \<lparr>userId = i, email = Some ''a@b.com''\<rparr>]"

text \<open>The store with that account and one trade of it.\<close>

definition trade1 :: trade where
  "trade1 =
     \<lparr>t_id = 1, t_type = ''buy'', t_userId = 1, t_symbol = ''AAPL'', t_shares = 50,
      t_price = 150.25, t_timestamp = 1000\<rparr>"

definition db2 :: database where
  "db2 = db1\<lparr>trades := [trade1], trade_seq := 2\<rparr>"

text \<open>
  The violations of a create request that the specification lists, in its words: the
  direction is not exactly "buy" or "sell", the share count is not an integer from 1 to
  100, the price is not positive, or a required field is missing.
\<close>

definition spec_violation :: "trade_body \<Rightarrow> bool" where
  "spec_violation b =
     ((b_type b \<noteq> Some (JStr ''buy'') \<and> b_type b \<noteq> Some (JStr ''sell'')) \<or>
      (case b_shares b of
         Some (JNum r) \<Rightarrow> \<not> (r = of_int \<lfloor>r\<rfloor> \<and> 1 \<le> r \<and> r \<le> 100) | _ \<Rightarrow> True) \<or>
      (case b_price b of Some (JNum r) \<Rightarrow> \<not> 0 < r | _ \<Rightarrow> True) \<or>
      b_type b = None \<or> b_user_id b = None \<or> b_symbol b = None \<or> b_shares b = None \<or>
      b_price b = None)"

text \<open>A create request for the given direction, account, symbol and share count, at price 150.25.\<close>

definition order_body :: "string \<Rightarrow> real \<Rightarrow> string \<Rightarrow> real \<Rightarrow> trade_body" where
  "order_body ty uid s n =
     \<lparr>b_type = Some (JStr ty), b_user_id = Some (JNum uid), b_symbol = Some (JStr s),
      b_shares = Some (JNum n), b_price = Some (JNum 150.25)\<rparr>"

section \<open>Facts about the library instance and the header\<close>

lemma dropWhile_replicate_eq:
  "dropWhile (\<lambda>c. c = a) (replicate n a @ r) = dropWhile (\<lambda>c. c = a) r"
  by (induction n) simp_all

lemma takeWhile_replicate_eq:
  "takeWhile (\<lambda>c. c = a) (replicate n a @ r) = replicate n a @ takeWhile (\<lambda>c. c = a) r"
  by (induction n) simp_all

lemma get_nat_put: "get_nat (put_nat n @ r) = Some (n, r)"
  by (simp add: get_nat_def put_nat_def dropWhile_replicate_eq takeWhile_replicate_eq)

lemma get_str_put: "get_str (put_str s @ r) = Some (s, r)"
  by (simp add: get_str_def put_str_def get_nat_put)

lemma get_int_put: "get_int (put_int i @ r) = Some (i, r)"
  by (simp add: get_int_def put_int_def get_nat_put)

lemma get_opt_put: "get_opt (put_opt v @ r) = Some (v, r)"
  by (cases v) (simp_all add: get_opt_def put_opt_def get_str_put)

lemma get_nat_put_end: "get_nat (put_nat n) = Some (n, [])"
  using get_nat_put [of n "[]"] by simp

lemma ref_decode_sign:
  "ref_decode (ref_sign p k e t) =
     Some (k, \<lparr>d_userId = userId p, d_email = email p, d_iat = t div 1000,
               d_exp = t div 1000 + ref_timespan e\<rparr>)"
  by (simp add: ref_decode_def ref_sign_def get_str_put get_int_put get_opt_put get_nat_put
      get_nat_put_end)

lemma ref_libs_contract: "jwt_contract ref_libs"
  by (simp add: jwt_contract_def ref_libs_def ref_verify_def ref_decode_sign throws_def
      jwt_error_def)

lemma ref_sign_nonempty: "ref_sign p k e t \<noteq> []"
  by (simp add: ref_sign_def put_str_def put_nat_def)

lemma ref_sign_no_space:
  "CHR '' '' \<notin> set k \<Longrightarrow> (\<forall>s. email p = Some s \<longrightarrow> CHR '' '' \<notin> set s)
     \<Longrightarrow> CHR '' '' \<notin> set (ref_sign p k e t)"
  by (cases "email p")
     (simp_all add: ref_sign_def put_str_def put_nat_def put_int_def put_opt_def)

lemma js_split_no_sep: "c \<notin> set a \<Longrightarrow> js_split c a = [a]"
  by (induction a) auto

lemma js_split_first: "c \<notin> set a \<Longrightarrow> js_split c (a @ c # r) = a # js_split c r"
  by (induction a) auto

lemma js_split_second:
  assumes "c \<notin> set a" and "c \<notin> set t" and "r = [] \<or> hd r = c"
  shows "\<exists>fs. js_split c (a @ c # t @ r) = a # t # fs"
proof (cases r)
  case Nil
  with assms show ?thesis by (simp add: js_split_first js_split_no_sep)
next
  case (Cons x r')
  with assms have "x = c" by simp
  with assms Cons show ?thesis by (simp add: js_split_first)
qed

lemma header_token_none: "header_token None = None"
  by (simp add: header_token_def)

lemma header_token_no_space:
  "CHR '' '' \<notin> set h \<Longrightarrow> header_token (Some h) = None \<or> header_token (Some h) = Some []"
  by (simp add: header_token_def js_split_no_sep)

lemma header_token_second:
  assumes "CHR '' '' \<notin> set a" and "CHR '' '' \<notin> set t" and "r = [] \<or> hd r = CHR '' ''"
  shows "header_token (Some (a @ CHR '' '' # t @ r)) = Some t"
proof -
  from js_split_second [OF assms] obtain fs
    where "js_split (CHR '' '') (a @ CHR '' '' # t @ r) = a # t # fs" by blast
  then show ?thesis by (simp add: header_token_def)
qed

lemma header_shapes:
  "CHR '' '' \<notin> set h \<or>
   (\<exists>a t r. h = a @ CHR '' '' # t @ r \<and> CHR '' '' \<notin> set a \<and> CHR '' '' \<notin> set t \<and>
      (r = [] \<or> hd r = CHR '' ''))"
proof (cases "CHR '' '' \<in> set h")
  case False
  then show ?thesis by simp
next
  case True
  define a where "a = takeWhile (\<lambda>c. c \<noteq> CHR '' '') h"
  define h' where "h' = tl (dropWhile (\<lambda>c. c \<noteq> CHR '' '') h)"
  define t where "t = takeWhile (\<lambda>c. c \<noteq> CHR '' '') h'"
  define r where "r = dropWhile (\<lambda>c. c \<noteq> CHR '' '') h'"
  from True have "dropWhile (\<lambda>c. c \<noteq> CHR '' '') h \<noteq> []" by simp
  moreover have "dropWhile (\<lambda>c. c \<noteq> CHR '' '') h \<noteq> [] \<Longrightarrow> hd (dropWhile (\<lambda>c. c \<noteq> CHR '' '') h) = CHR '' ''"
    using hd_dropWhile [of "\<lambda>c. c \<noteq> CHR '' ''" h] by simp
  ultimately have "dropWhile (\<lambda>c. c \<noteq> CHR '' '') h = CHR '' '' # h'"
    unfolding h'_def by (cases "dropWhile (\<lambda>c. c \<noteq> CHR '' '') h") auto
  then have h: "h = a @ CHR '' '' # h'"
    unfolding a_def using takeWhile_dropWhile_id [of "\<lambda>c. c \<noteq> CHR '' ''" h] by simp
  have h': "h' = t @ r" unfolding t_def r_def by simp
  have "CHR '' '' \<notin> set a" unfolding a_def by (auto dest: set_takeWhileD)
  moreover have "CHR '' '' \<notin> set t" unfolding t_def by (auto dest: set_takeWhileD)
  moreover have "r = [] \<or> hd r = CHR '' ''"
    unfolding r_def using hd_dropWhile [of "\<lambda>c. c \<noteq> CHR '' ''" h'] by auto
  ultimately show ?thesis using h h' by blast
qed

lemma verify_own_access:
  assumes "jwt_contract lib"
    and "now div 1000 < t div 1000 + jwt_timespan lib (js_or (JWT_ACCESS_EXPIRY ev) ''10m'')"
  shows "verifyAccessToken lib ev now (generateAccessToken lib ev t p) =
     Inr \<lparr>d_userId = userId p, d_email = email p, d_iat = t div 1000,
          d_exp = t div 1000 + jwt_timespan lib (js_or (JWT_ACCESS_EXPIRY ev) ''10m'')\<rparr>"
  using assms unfolding jwt_contract_def verifyAccessToken_def generateAccessToken_def by blast

lemma verify_expired_access:
  assumes "jwt_contract lib"
    and "t div 1000 + jwt_timespan lib (js_or (JWT_ACCESS_EXPIRY ev) ''10m'') \<le> now div 1000"
  shows "throws ''TokenExpiredError'' (verifyAccessToken lib ev now (generateAccessToken lib ev t p))"
  using assms unfolding jwt_contract_def verifyAccessToken_def generateAccessToken_def by blast

lemma ref_access_token_no_space:
  "CHR '' '' \<notin> set (generateAccessToken ref_libs ref_env t \<lparr>userId = i, email = Some ''a@b.com''\<rparr>)"
  by (simp add: generateAccessToken_def ref_libs_def ref_env_def ref_sign_no_space)

lemma ref_access_token_nonempty:
  "generateAccessToken ref_libs ref_env t p \<noteq> []"
  by (simp add: generateAccessToken_def ref_libs_def ref_sign_nonempty)

lemma ref_timespan_access: "jwt_timespan ref_libs (js_or (JWT_ACCESS_EXPIRY ref_env) ''10m'') = 600"
  by (simp add: ref_libs_def ref_env_def js_or_def ref_timespan_def)

section \<open>The auth gate\<close>

text \<open>
  Claim C1, as the code has it. The gate classifies every request by its
  \<open>authorization\<close> header. With no header, a header without a space, or an empty
  second space-separated field, it answers 401 \<open>Access token required\<close> and does
  not consult the token library. Otherwise the second space-separated field is the
  token, whatever word stands before the first space: an expired token answers 401
  \<open>Access token expired\<close>, an invalid or malformed one 401 \<open>Invalid access token\<close>,
  any other verification error 500 \<open>Token verification failed\<close>, and on success the
  decoded claims are handed on and processing continues. By \<open>header_shapes\<close> these
  cases cover every header.
\<close>

theorem authenticateToken_classes:
  "(headers ''authorization'' = None \<longrightarrow>
      authenticateToken lib ev now headers = Inl (error_response 401 ''Access token required'')) \<and>
   (\<forall>h. headers ''authorization'' = Some h \<and> CHR '' '' \<notin> set h \<longrightarrow>
      authenticateToken lib ev now headers = Inl (error_response 401 ''Access token required'')) \<and>
   (\<forall>a t r. headers ''authorization'' = Some (a @ CHR '' '' # t @ r) \<and>
        CHR '' '' \<notin> set a \<and> CHR '' '' \<notin> set t \<and> (r = [] \<or> hd r = CHR '' '') \<longrightarrow>
      (t = [] \<longrightarrow>
         authenticateToken lib ev now headers = Inl (error_response 401 ''Access token required'')) \<and>
      (t \<noteq> [] \<and> throws ''TokenExpiredError'' (verifyAccessToken lib ev now t) \<longrightarrow>
         authenticateToken lib ev now headers = Inl (error_response 401 ''Access token expired'')) \<and>
      (t \<noteq> [] \<and> throws ''JsonWebTokenError'' (verifyAccessToken lib ev now t) \<longrightarrow>
         authenticateToken lib ev now headers = Inl (error_response 401 ''Invalid access token'')) \<and>
      (\<forall>e. t \<noteq> [] \<and> verifyAccessToken lib ev now t = Inl e \<and>
           err_name e \<noteq> ''TokenExpiredError'' \<and> err_name e \<noteq> ''JsonWebTokenError'' \<longrightarrow>
         authenticateToken lib ev now headers = Inl (error_response 500 ''Token verification failed'')) \<and>
      (\<forall>dec. t \<noteq> [] \<and> verifyAccessToken lib ev now t = Inr dec \<longrightarrow>
         authenticateToken lib ev now headers = Inr dec))"
proof (intro conjI allI impI)
  assume "headers ''authorization'' = None"
  then show "authenticateToken lib ev now headers = Inl (error_response 401 ''Access token required'')"
    by (simp add: authenticateToken_def header_token_none)
next
  fix h
  assume "headers ''authorization'' = Some h \<and> CHR '' '' \<notin> set h"
  then show "authenticateToken lib ev now headers = Inl (error_response 401 ''Access token required'')"
    using header_token_no_space [of h] by (auto simp: authenticateToken_def)
next
  fix a t r
  assume s: "headers ''authorization'' = Some (a @ CHR '' '' # t @ r) \<and>
        CHR '' '' \<notin> set a \<and> CHR '' '' \<notin> set t \<and> (r = [] \<or> hd r = CHR '' '')"
  then have tok: "header_token (headers ''authorization'') = Some t"
    by (simp add: header_token_second)
  {
    assume "t = []"
    with tok show "authenticateToken lib ev now headers = Inl (error_response 401 ''Access token required'')"
      by (simp add: authenticateToken_def)
  next
    assume "t \<noteq> [] \<and> throws ''TokenExpiredError'' (verifyAccessToken lib ev now t)"
    with tok show "authenticateToken lib ev now headers = Inl (error_response 401 ''Access token expired'')"
      by (auto simp: authenticateToken_def throws_def split: sum.splits)
  next
    assume "t \<noteq> [] \<and> throws ''JsonWebTokenError'' (verifyAccessToken lib ev now t)"
    with tok show "authenticateToken lib ev now headers = Inl (error_response 401 ''Invalid access token'')"
      by (auto simp: authenticateToken_def throws_def split: sum.splits)
  next
    fix e
    assume "t \<noteq> [] \<and> verifyAccessToken lib ev now t = Inl e \<and>
           err_name e \<noteq> ''TokenExpiredError'' \<and> err_name e \<noteq> ''JsonWebTokenError''"
    with tok show "authenticateToken lib ev now headers = Inl (error_response 500 ''Token verification failed'')"
      by (simp add: authenticateToken_def)
  next
    fix dec
    assume "t \<noteq> [] \<and> verifyAccessToken lib ev now t = Inr dec"
    with tok show "authenticateToken lib ev now headers = Inr dec"
      by (simp add: authenticateToken_def)
  }
qed


text \<open>The classification run on one request of each class.\<close>

theorem authenticateToken_classes_witness:
  "authenticateToken ref_libs ref_env 0 (\<lambda>n. None) =
     Inl (error_response 401 ''Access token required'') \<and>
   authenticateToken ref_libs ref_env 0 [''authorization'' \<mapsto> ''Bearer''] =
     Inl (error_response 401 ''Access token required'') \<and>
   authenticateToken ref_libs ref_env 0 [''authorization'' \<mapsto> ''Bearer  x''] =
     Inl (error_response 401 ''Access token required'') \<and>
   authenticateToken ref_libs ref_env 700000
     [''authorization'' \<mapsto> ''Bearer '' @
        generateAccessToken ref_libs ref_env 0 \<lparr>userId = 7, email = Some ''a@b.com''\<rparr>] =
     Inl (error_response 401 ''Access token expired'') \<and>
   authenticateToken ref_libs ref_env 0 [''authorization'' \<mapsto> ''Bearer x''] =
     Inl (error_response 401 ''Invalid access token'') \<and>
   authenticateToken
     (ref_libs\<lparr>jwt_verify := \<lambda>token secret now. Inl (jwt_error ''NotBeforeError'' ''jwt not active'')\<rparr>)
     ref_env 0 [''authorization'' \<mapsto> ''Bearer x''] =
     Inl (error_response 500 ''Token verification failed'') \<and>
   authenticateToken ref_libs ref_env 0
     [''authorization'' \<mapsto> ''Bearer '' @
        generateAccessToken ref_libs ref_env 0 \<lparr>userId = 7, email = Some ''a@b.com''\<rparr>] =
     Inr \<lparr>d_userId = 7, d_email = Some ''a@b.com'', d_iat = 0, d_exp = 600\<rparr>"
proof -
  note T = authenticateToken_classes
  note T3 = T [THEN conjunct2, THEN conjunct2, rule_format]
  let ?tok = "generateAccessToken ref_libs ref_env 0 \<lparr>userId = 7, email = Some ''a@b.com''\<rparr>"
  have w1: "authenticateToken ref_libs ref_env 0 (\<lambda>n. None) =
     Inl (error_response 401 ''Access token required'')"
    using T [of "\<lambda>n. None" ref_libs ref_env 0] by simp
  have w2: "authenticateToken ref_libs ref_env 0 [''authorization'' \<mapsto> ''Bearer''] =
     Inl (error_response 401 ''Access token required'')"
    using T [of "[''authorization'' \<mapsto> ''Bearer'']" ref_libs ref_env 0] by simp
  have w3: "authenticateToken ref_libs ref_env 0 [''authorization'' \<mapsto> ''Bearer  x''] =
     Inl (error_response 401 ''Access token required'')"
    using T3 [where headers = "[''authorization'' \<mapsto> ''Bearer  x'']" and a = "''Bearer''"
        and t = "[]" and r = "'' x''" and lib = ref_libs and ev = ref_env and now = 0]
    by simp
  have e4: "throws ''TokenExpiredError'' (verifyAccessToken ref_libs ref_env 700000 ?tok)"
    by (rule verify_expired_access [OF ref_libs_contract]) (simp add: ref_timespan_access)
  have w4: "authenticateToken ref_libs ref_env 700000 [''authorization'' \<mapsto> ''Bearer '' @ ?tok] =
     Inl (error_response 401 ''Access token expired'')"
    using T3 [where headers = "[''authorization'' \<mapsto> ''Bearer '' @ ?tok]" and a = "''Bearer''"
        and t = ?tok and r = "[]" and lib = ref_libs and ev = ref_env and now = 700000]
      e4 ref_access_token_no_space [of 0 7] ref_access_token_nonempty
    by simp
  have e5: "throws ''JsonWebTokenError'' (verifyAccessToken ref_libs ref_env 0 ''x'')"
    by (simp add: throws_def verifyAccessToken_def ref_libs_def ref_verify_def ref_decode_def
        get_str_def get_nat_def jwt_error_def)
  have w5: "authenticateToken ref_libs ref_env 0 [''authorization'' \<mapsto> ''Bearer x''] =
     Inl (error_response 401 ''Invalid access token'')"
    using T3 [where headers = "[''authorization'' \<mapsto> ''Bearer x'']" and a = "''Bearer''"
        and t = "''x''" and r = "[]" and lib = ref_libs and ev = ref_env and now = 0] e5
    by simp
  let ?lib = "ref_libs\<lparr>jwt_verify := \<lambda>token secret now. Inl (jwt_error ''NotBeforeError'' ''jwt not active'')\<rparr>"
  have w6: "authenticateToken ?lib ref_env 0 [''authorization'' \<mapsto> ''Bearer x''] =
     Inl (error_response 500 ''Token verification failed'')"
    using T3 [where headers = "[''authorization'' \<mapsto> ''Bearer x'']" and a = "''Bearer''"
        and t = "''x''" and r = "[]" and lib = ?lib and ev = ref_env and now = 0]
    by (simp add: verifyAccessToken_def jwt_error_def)
  have e7: "verifyAccessToken ref_libs ref_env 0 ?tok =
      Inr \<lparr>d_userId = 7, d_email = Some ''a@b.com'', d_iat = 0, d_exp = 600\<rparr>"
    using verify_own_access [OF ref_libs_contract, of 0 0 ref_env "\<lparr>userId = 7, email = Some ''a@b.com''\<rparr>"]
    by (simp add: ref_timespan_access)
  have w7: "authenticateToken ref_libs ref_env 0 [''authorization'' \<mapsto> ''Bearer '' @ ?tok] =
     Inr \<lparr>d_userId = 7, d_email = Some ''a@b.com'', d_iat = 0, d_exp = 600\<rparr>"
    using T3 [where headers = "[''authorization'' \<mapsto> ''Bearer '' @ ?tok]" and a = "''Bearer''"
        and t = ?tok and r = "[]" and lib = ref_libs and ev = ref_env and now = 0]
      e7 ref_access_token_no_space [of 0 7] ref_access_token_nonempty
    by simp
  from w1 w2 w3 w4 w5 w6 w7 show ?thesis by blast
qed

text \<open>
  The claim says that a header not of the form \<open>Bearer <token>\<close> is answered with
  \<open>Access token required\<close>. A valid access token sent under the scheme word
  \<open>Basic\<close> passes the gate.
\<close>

theorem bearer_scheme_counterexample:
  "take 7 (''Basic '' @
        generateAccessToken ref_libs ref_env 0 \<lparr>userId = 7, email = Some ''a@b.com''\<rparr>)
     \<noteq> ''Bearer '' \<and>
   authenticateToken ref_libs ref_env 0
     [''authorization'' \<mapsto> ''Basic '' @
        generateAccessToken ref_libs ref_env 0 \<lparr>userId = 7, email = Some ''a@b.com''\<rparr>] =
     Inr \<lparr>d_userId = 7, d_email = Some ''a@b.com'', d_iat = 0, d_exp = 600\<rparr>"
proof -
  let ?tok = "generateAccessToken ref_libs ref_env 0 \<lparr>userId = 7, email = Some ''a@b.com''\<rparr>"
  have e: "verifyAccessToken ref_libs ref_env 0 ?tok =
      Inr \<lparr>d_userId = 7, d_email = Some ''a@b.com'', d_iat = 0, d_exp = 600\<rparr>"
    using verify_own_access [OF ref_libs_contract, of 0 0 ref_env "\<lparr>userId = 7, email = Some ''a@b.com''\<rparr>"]
    by (simp add: ref_timespan_access)
  have "header_token (Some (''Basic'' @ CHR '' '' # ?tok @ [])) = Some ?tok"
    by (rule header_token_second) (simp_all add: ref_access_token_no_space)
  then have "authenticateToken ref_libs ref_env 0 [''authorization'' \<mapsto> ''Basic '' @ ?tok] =
     Inr \<lparr>d_userId = 7, d_email = Some ''a@b.com'', d_iat = 0, d_exp = 600\<rparr>"
    using e ref_access_token_nonempty by (simp add: authenticateToken_def)
  then show ?thesis by simp
qed

section \<open>The token codec\<close>






text \<open>
  Claim C2. Access and refresh tokens are signed with the secrets of two different
  variables. When the two secrets differ, a refresh token is never accepted by
  \<open>verifyAccessToken\<close> and an access token is never accepted by
  \<open>verifyRefreshToken\<close>: both throw \<open>JsonWebTokenError\<close>, at every instant and for
  every payload.
\<close>

theorem token_classes_separated:
  assumes "jwt_contract lib" and "JWT_ACCESS_SECRET ev \<noteq> JWT_REFRESH_SECRET ev"
  shows "throws ''JsonWebTokenError''
           (verifyAccessToken lib ev now (generateRefreshToken lib ev t p)) \<and>
         throws ''JsonWebTokenError''
           (verifyRefreshToken lib ev now (generateAccessToken lib ev t p)) \<and>
         (\<forall>dec. verifyAccessToken lib ev now (generateRefreshToken lib ev t p) \<noteq> Inr dec) \<and>
         (\<forall>dec. verifyRefreshToken lib ev now (generateAccessToken lib ev t p) \<noteq> Inr dec)"
proof -
  have a: "throws ''JsonWebTokenError''
      (verifyAccessToken lib ev now (generateRefreshToken lib ev t p))"
    using assms unfolding jwt_contract_def verifyAccessToken_def generateRefreshToken_def
    by blast
  have b: "throws ''JsonWebTokenError''
      (verifyRefreshToken lib ev now (generateAccessToken lib ev t p))"
    using assms unfolding jwt_contract_def verifyRefreshToken_def generateAccessToken_def
    by metis
  from a b show ?thesis by (auto simp: throws_def)
qed

theorem token_classes_separated_witness:
  "JWT_ACCESS_SECRET ref_env \<noteq> JWT_REFRESH_SECRET ref_env \<and>
   throws ''JsonWebTokenError''
     (verifyAccessToken ref_libs ref_env 0
        (generateRefreshToken ref_libs ref_env 0 \<lparr>userId = 7, email = None\<rparr>)) \<and>
   throws ''JsonWebTokenError''
     (verifyRefreshToken ref_libs ref_env 0
        (generateAccessToken ref_libs ref_env 0 \<lparr>userId = 7, email = Some ''a@b.com''\<rparr>))"
proof -
  have d: "JWT_ACCESS_SECRET ref_env \<noteq> JWT_REFRESH_SECRET ref_env"
    by (simp add: ref_env_def)
  from token_classes_separated [OF ref_libs_contract d, of 0 0 "\<lparr>userId = 7, email = None\<rparr>"]
    token_classes_separated [OF ref_libs_contract d, of 0 0 "\<lparr>userId = 7, email = Some ''a@b.com''\<rparr>"]
    d show ?thesis by blast
qed

section \<open>Login\<close>

text \<open>
  Claim C5. For every store, a login whose email has no account and a login whose email
  has an account but whose password does not match both answer 401 with the same body,
  \<open>Invalid email or password\<close>; the two responses are equal and the store is left as
  it was.
\<close>

theorem login_same_failure:
  assumes "loginSchema lib b1" and "loginSchema lib b2"
    and "user_findUnique_email db (str_of (c_email b1)) = None"
    and "user_findUnique_email db (str_of (c_email b2)) = Some u"
    and "\<not> bcrypt_compare lib (str_of (c_password b2)) (u_password u)"
  shows "login lib ev now1 db b1 = error_response 401 ''Invalid email or password'' \<and>
         login lib ev now2 db b2 = error_response 401 ''Invalid email or password'' \<and>
         serve lib ev now1 db (PostLogin b1) = serve lib ev now2 db (PostLogin b2)"
  using assms by (simp add: login_def validate_def login_handler_def)

theorem login_same_failure_witness:
  "loginSchema ref_libs \<lparr>c_email = Some (JStr ''x@y.com''), c_password = Some (JStr ''secret1'')\<rparr> \<and>
   loginSchema ref_libs \<lparr>c_email = Some (JStr ''a@b.com''), c_password = Some (JStr ''wrong'')\<rparr> \<and>
   login ref_libs ref_env 0 db1 \<lparr>c_email = Some (JStr ''x@y.com''), c_password = Some (JStr ''secret1'')\<rparr> =
     error_response 401 ''Invalid email or password'' \<and>
   login ref_libs ref_env 5 db1 \<lparr>c_email = Some (JStr ''a@b.com''), c_password = Some (JStr ''wrong'')\<rparr> =
     error_response 401 ''Invalid email or password''"
proof -
  let ?b1 = "\<lparr>c_email = Some (JStr ''x@y.com''), c_password = Some (JStr ''secret1'')\<rparr>"
  let ?b2 = "\<lparr>c_email = Some (JStr ''a@b.com''), c_password = Some (JStr ''wrong'')\<rparr>"
  let ?u = "\<lparr>u_id = 1, u_email = ''a@b.com'', u_password = ''$2a$secret1''\<rparr>"
  have v1: "loginSchema ref_libs ?b1" by (simp add: loginSchema_def joi_string_def ref_libs_def)
  have v2: "loginSchema ref_libs ?b2" by (simp add: loginSchema_def joi_string_def ref_libs_def)
  have f1: "user_findUnique_email db1 (str_of (c_email ?b1)) = None"
    by (simp add: user_findUnique_email_def db1_def str_of_def)
  have f2: "user_findUnique_email db1 (str_of (c_email ?b2)) = Some ?u"
    by (simp add: user_findUnique_email_def db1_def str_of_def)
  have c: "\<not> bcrypt_compare ref_libs (str_of (c_password ?b2)) (u_password ?u)"
    by (simp add: ref_libs_def str_of_def)
  from login_same_failure [OF v1 v2 f1 f2 c, of ref_env 0 5] v1 v2 show ?thesis by blast
qed

section \<open>Token refresh\<close>

lemma ref_headers_pass:
  "authenticateToken ref_libs ref_env 0 (ref_headers i) =
     Inr \<lparr>d_userId = i, d_email = Some ''a@b.com'', d_iat = 0, d_exp = 600\<rparr>"
proof -
  let ?tok = "generateAccessToken ref_libs ref_env 0 \<lparr>userId = i, email = Some ''a@b.com''\<rparr>"
  have e: "verifyAccessToken ref_libs ref_env 0 ?tok =
      Inr \<lparr>d_userId = i, d_email = Some ''a@b.com'', d_iat = 0, d_exp = 600\<rparr>"
    using verify_own_access [OF ref_libs_contract, of 0 0 ref_env "\<lparr>userId = i, email = Some ''a@b.com''\<rparr>"]
    by (simp add: ref_timespan_access)
  have "header_token (Some (''Bearer'' @ CHR '' '' # ?tok @ [])) = Some ?tok"
    by (rule header_token_second) (simp_all add: ref_access_token_no_space)
  then show ?thesis
    using e ref_access_token_nonempty by (simp add: authenticateToken_def ref_headers_def)
qed



section \<open>Refused methods\<close>

text \<open>
  Claim C4. For every authenticated PUT, PATCH or DELETE on \<open>/trades/:id\<close>, whatever
  the id and whether or not such a trade exists, the response is 405 with the message
  \<open>Trade modification is not permitted\<close> (PUT, PATCH) or
  \<open>Trade deletion is not permitted\<close> (DELETE), and the stores are unchanged: every
  trade is found by its id as before, and reading it through \<open>GET /trades/:id\<close>
  afterwards gives the response it gave before.
\<close>

theorem trade_mutation_refused:
  assumes "authenticateToken lib ev now h = Inr dec"
  shows "serve lib ev now db (PutTrade h i) =
           (\<lparr>status = 405,
             body = JObj [(''error'', JStr ''Method not allowed''),
                          (''message'', JStr ''Trade modification is not permitted'')]\<rparr>, db) \<and>
         serve lib ev now db (PatchTrade h i) =
           (\<lparr>status = 405,
             body = JObj [(''error'', JStr ''Method not allowed''),
                          (''message'', JStr ''Trade modification is not permitted'')]\<rparr>, db) \<and>
         serve lib ev now db (DeleteTrade h i) =
           (\<lparr>status = 405,
             body = JObj [(''error'', JStr ''Method not allowed''),
                          (''message'', JStr ''Trade deletion is not permitted'')]\<rparr>, db) \<and>
         (\<forall>r \<in> {PutTrade h i, PatchTrade h i, DeleteTrade h i}. \<forall>now' h' j.
            trades (snd (serve lib ev now db r)) = trades db \<and>
            trade_findUnique (snd (serve lib ev now db r)) j = trade_findUnique db j \<and>
            serve lib ev now' (snd (serve lib ev now db r)) (GetTrade h' (Some (JNum (of_int j)))) =
              serve lib ev now' db (GetTrade h' (Some (JNum (of_int j)))))"
  using assms by (simp add: method_not_allowed_def)


theorem trade_mutation_refused_witness:
  "serve ref_libs ref_env 0 db2 (PutTrade (ref_headers 1) ''1'') =
     (\<lparr>status = 405,
       body = JObj [(''error'', JStr ''Method not allowed''),
                    (''message'', JStr ''Trade modification is not permitted'')]\<rparr>, db2) \<and>
   serve ref_libs ref_env 0 db2 (PatchTrade (ref_headers 1) ''1'') =
     (\<lparr>status = 405,
       body = JObj [(''error'', JStr ''Method not allowed''),
                    (''message'', JStr ''Trade modification is not permitted'')]\<rparr>, db2) \<and>
   serve ref_libs ref_env 0 db2 (DeleteTrade (ref_headers 1) ''999'') =
     (\<lparr>status = 405,
       body = JObj [(''error'', JStr ''Method not allowed''),
                    (''message'', JStr ''Trade deletion is not permitted'')]\<rparr>, db2) \<and>
   serve ref_libs ref_env 0
     (snd (serve ref_libs ref_env 0 db2 (DeleteTrade (ref_headers 1) ''1'')))
     (GetTrade (ref_headers 1) (Some (JNum 1))) =
     (\<lparr>status = 200, body = responseData trade1\<rparr>, db2)"
proof -
  note T = trade_mutation_refused [OF ref_headers_pass [of 1]]
  have g: "serve ref_libs ref_env 0 db2 (GetTrade (ref_headers 1) (Some (JNum 1))) =
     (\<lparr>status = 200, body = responseData trade1\<rparr>, db2)"
    by (simp add: get_trade_def ref_headers_pass validate_def tradeIdSchema_def joi_number_def
        joi_integer_def get_trade_handler_def trade_findUnique_def int_of_def num_of_def
        db2_def trade1_def)
  from T [of db2 "''1''"] T [of db2 "''999''"] g show ?thesis by simp
qed

section \<open>Signup\<close>



lemma user_create_taken:
  "user_findUnique_email db e = Some u \<Longrightarrow>
     user_create db e pw =
       Inl (prisma_error ''P2002'' ''Unique constraint failed on the fields: (`email`)'')"
  by (simp add: user_create_def)

lemma errorHandler_P2002:
  "errorHandler ev (prisma_error ''P2002'' msg) =
     \<lparr>status = 409,
      body = JObj [(''error'', JStr ''Unique constraint violation''),
                   (''details'', JStr ''A record with this data already exists'')]\<rparr>"
  by (simp add: errorHandler_def prisma_error_def)

text \<open>
  Claim C6, as the code has it. For every store in which an account with the email
  exists, a valid signup for that email fails with 409 and leaves the store as it was,
  on both paths that detect the duplicate. The handler's own lookup answers
  \<open>User with this email already exists\<close>; the store's unique constraint, which is
  what an insert meets when the account appeared after the lookup, is answered by the
  error handler with \<open>Unique constraint violation\<close> and a \<open>details\<close> field. The two
  bodies are not the same.
\<close>

theorem signup_duplicate_conflict:
  assumes "signupSchema lib b" and "user_findUnique_email db (str_of (c_email b)) = Some u"
  shows "signup lib ev now db b =
           (error_response 409 ''User with this email already exists'', db) \<and>
         signup_create lib ev now db (str_of (c_email b)) (str_of (c_password b)) =
           (\<lparr>status = 409,
             body = JObj [(''error'', JStr ''Unique constraint violation''),
                          (''details'', JStr ''A record with this data already exists'')]\<rparr>, db)"
  using assms
  by (simp add: signup_def validate_def signup_handler_def signup_create_def
      user_create_taken errorHandler_P2002)

theorem signup_duplicate_conflict_witness:
  "signupSchema ref_libs \<lparr>c_email = Some (JStr ''a@b.com''), c_password = Some (JStr ''secret2'')\<rparr> \<and>
   signup ref_libs ref_env 0 db1
       \<lparr>c_email = Some (JStr ''a@b.com''), c_password = Some (JStr ''secret2'')\<rparr> =
     (error_response 409 ''User with this email already exists'', db1) \<and>
   signup_create ref_libs ref_env 0 db1 ''a@b.com'' ''secret2'' =
     (\<lparr>status = 409,
       body = JObj [(''error'', JStr ''Unique constraint violation''),
                    (''details'', JStr ''A record with this data already exists'')]\<rparr>, db1)"
proof -
  let ?b = "\<lparr>c_email = Some (JStr ''a@b.com''), c_password = Some (JStr ''secret2'')\<rparr>"
  have v: "signupSchema ref_libs ?b"
    by (simp add: signupSchema_def joi_string_def ref_libs_def)
  have f: "user_findUnique_email db1 (str_of (c_email ?b)) =
      Some \<lparr>u_id = 1, u_email = ''a@b.com'', u_password = ''$2a$secret1''\<rparr>"
    by (simp add: user_findUnique_email_def db1_def str_of_def)
  from signup_duplicate_conflict [OF v f, of ref_env 0] v show ?thesis
    by (simp add: str_of_def)
qed

text \<open>
  The claim says that the 409 message is identical on every path that detects the
  duplicate. On the store with the account \<open>a@b.com\<close>, the lookup path and the
  insert path both answer 409, with different bodies.
\<close>

theorem conflict_messages_counterexample:
  "user_findUnique_email db1 ''a@b.com'' \<noteq> None \<and>
   status (fst (signup ref_libs ref_env 0 db1
       \<lparr>c_email = Some (JStr ''a@b.com''), c_password = Some (JStr ''secret2'')\<rparr>)) = 409 \<and>
   status (fst (signup_create ref_libs ref_env 0 db1 ''a@b.com'' ''secret2'')) = 409 \<and>
   body (fst (signup ref_libs ref_env 0 db1
       \<lparr>c_email = Some (JStr ''a@b.com''), c_password = Some (JStr ''secret2'')\<rparr>)) =
     JObj [(''error'', JStr ''User with this email already exists'')] \<and>
   body (fst (signup_create ref_libs ref_env 0 db1 ''a@b.com'' ''secret2'')) =
     JObj [(''error'', JStr ''Unique constraint violation''),
           (''details'', JStr ''A record with this data already exists'')] \<and>
   body (fst (signup_create ref_libs ref_env 0 db1 ''a@b.com'' ''secret2'')) \<noteq>
     body (fst (signup ref_libs ref_env 0 db1
       \<lparr>c_email = Some (JStr ''a@b.com''), c_password = Some (JStr ''secret2'')\<rparr>))"
proof -
  have f: "user_findUnique_email db1 ''a@b.com'' =
      Some \<lparr>u_id = 1, u_email = ''a@b.com'', u_password = ''$2a$secret1''\<rparr>"
    by (simp add: user_findUnique_email_def db1_def)
  have s: "signup ref_libs ref_env 0 db1
       \<lparr>c_email = Some (JStr ''a@b.com''), c_password = Some (JStr ''secret2'')\<rparr> =
     (error_response 409 ''User with this email already exists'', db1)"
    using f
    by (simp add: signup_def validate_def signupSchema_def joi_string_def ref_libs_def
        signup_handler_def str_of_def)
  have c: "signup_create ref_libs ref_env 0 db1 ''a@b.com'' ''secret2'' =
     (\<lparr>status = 409,
       body = JObj [(''error'', JStr ''Unique constraint violation''),
                    (''details'', JStr ''A record with this data already exists'')]\<rparr>, db1)"
    using f by (simp add: signup_create_def user_create_taken errorHandler_P2002)
  from f s c show ?thesis by (simp add: error_response_def)
qed



section \<open>Creating a trade\<close>

lemma ref_headers_pass_at:
  assumes "now div 1000 < 600"
  shows "authenticateToken ref_libs ref_env now (ref_headers i) =
     Inr \<lparr>d_userId = i, d_email = Some ''a@b.com'', d_iat = 0, d_exp = 600\<rparr>"
proof -
  let ?tok = "generateAccessToken ref_libs ref_env 0 \<lparr>userId = i, email = Some ''a@b.com''\<rparr>"
  have e: "verifyAccessToken ref_libs ref_env now ?tok =
      Inr \<lparr>d_userId = i, d_email = Some ''a@b.com'', d_iat = 0, d_exp = 600\<rparr>"
    using verify_own_access [OF ref_libs_contract, of now 0 ref_env "\<lparr>userId = i, email = Some ''a@b.com''\<rparr>"]
      assms
    by (simp add: ref_timespan_access)
  have "header_token (Some (''Bearer'' @ CHR '' '' # ?tok @ [])) = Some ?tok"
    by (rule header_token_second) (simp_all add: ref_access_token_no_space)
  then show ?thesis
    using e ref_access_token_nonempty by (simp add: authenticateToken_def ref_headers_def)
qed

lemma joi_integer_floor: "joi_integer r \<Longrightarrow> of_int \<lfloor>r\<rfloor> = r"
  by (simp add: joi_integer_def)

lemma createTradeSchema_fields:
  assumes "createTradeSchema b"
  shows "b_type b = Some (JStr (str_of (b_type b))) \<and>
         (str_of (b_type b) = ''buy'' \<or> str_of (b_type b) = ''sell'') \<and>
         b_user_id b = Some (JNum (of_int (int_of (b_user_id b)))) \<and>
         0 < int_of (b_user_id b) \<and>
         b_symbol b = Some (JStr (str_of (b_symbol b))) \<and>
         b_shares b = Some (JNum (of_int (int_of (b_shares b)))) \<and>
         1 \<le> int_of (b_shares b) \<and> int_of (b_shares b) \<le> 100 \<and>
         b_price b = Some (JNum (num_of (b_price b))) \<and> 0 < num_of (b_price b)"
proof -
  from assms obtain u n p where
    u: "b_user_id b = Some (JNum u)" "joi_integer u" "0 < u" and
    n: "b_shares b = Some (JNum n)" "joi_integer n" "1 \<le> n" "n \<le> 100" and
    p: "b_price b = Some (JNum p)" "0 < p"
    by (auto simp: createTradeSchema_def joi_number_def
        split: option.splits json.splits if_splits)
  from assms have ty: "b_type b = Some (JStr ''buy'') \<or> b_type b = Some (JStr ''sell'')"
    by (simp add: createTradeSchema_def)
  from assms obtain s where s: "b_symbol b = Some (JStr s)"
    by (auto simp: createTradeSchema_def joi_string_def split: option.splits json.splits)
  have "0 < (of_int \<lfloor>u\<rfloor> :: real)" using u by (simp add: joi_integer_floor)
  then have "0 < \<lfloor>u\<rfloor>" by simp
  moreover have "1 \<le> \<lfloor>n\<rfloor>" using n by (simp add: le_floor_iff)
  moreover have "\<lfloor>n\<rfloor> \<le> 100" using n by (simp add: floor_le_iff)
  ultimately show ?thesis
    using u n p ty s by (auto simp: str_of_def int_of_def num_of_def joi_integer_floor)
qed

lemma spec_violation_invalid: "spec_violation b \<Longrightarrow> \<not> createTradeSchema b"
  by (auto simp: spec_violation_def createTradeSchema_def joi_number_def joi_integer_def
      joi_string_def split: option.splits json.splits if_splits)

lemma trade_create_known:
  "user_findUnique_id db (n_userId d) \<noteq> None \<Longrightarrow>
     trade_create db d =
       Inr (\<lparr>t_id = trade_seq db, t_type = n_type d, t_userId = n_userId d,
             t_symbol = n_symbol d, t_shares = n_shares d, t_price = n_price d,
             t_timestamp = n_timestamp d\<rparr>,
            db\<lparr>trades := trades db @
                   [\<lparr>t_id = trade_seq db, t_type = n_type d, t_userId = n_userId d,
                     t_symbol = n_symbol d, t_shares = n_shares d, t_price = n_price d,
                     t_timestamp = n_timestamp d\<rparr>],
               trade_seq := trade_seq db + 1\<rparr>)"
  by (simp add: trade_create_def Let_def)

lemma trade_create_unknown:
  "user_findUnique_id db (n_userId d) = None \<Longrightarrow>
     trade_create db d =
       Inl (prisma_error ''P2003'' ''Foreign key constraint failed on the field: `user_id`'')"
  by (simp add: trade_create_def)

lemma errorHandler_P2003:
  "status (errorHandler ev (prisma_error ''P2003'' msg)) = 500"
  by (simp add: errorHandler_def prisma_error_def)

lemma post_trades_handler_known:
  assumes "user_findUnique_id db (int_of (b_user_id b)) \<noteq> None"
  shows "post_trades_handler lib ev now db b =
     (\<lparr>status = 201,
       body = responseTradeData
                \<lparr>t_id = trade_seq db, t_type = str_of (b_type b),
                 t_userId = int_of (b_user_id b),
                 t_symbol = toUpperCase lib (str_of (b_symbol b)),
                 t_shares = int_of (b_shares b), t_price = num_of (b_price b),
                 t_timestamp = now\<rparr>\<rparr>,
      db\<lparr>trades := trades db @
             [\<lparr>t_id = trade_seq db, t_type = str_of (b_type b),
               t_userId = int_of (b_user_id b),
               t_symbol = toUpperCase lib (str_of (b_symbol b)),
               t_shares = int_of (b_shares b), t_price = num_of (b_price b),
               t_timestamp = now\<rparr>],
         trade_seq := trade_seq db + 1\<rparr>)"
  using assms by (simp add: post_trades_handler_def Let_def trade_create_known)

lemma post_trades_handler_unknown:
  assumes "user_findUnique_id db (int_of (b_user_id b)) = None"
  shows "post_trades_handler lib ev now db b =
     (errorHandler ev
        (prisma_error ''P2003'' ''Foreign key constraint failed on the field: `user_id`''), db)"
  using assms by (simp add: post_trades_handler_def Let_def trade_create_unknown)

lemma order_body_valid:
  "createTradeSchema (order_body ''buy'' 1 ''aapl'' 100)"
  "createTradeSchema (order_body ''buy'' 999 ''aapl'' 50)"
  "createTradeSchema (order_body ''sell'' 2 ''msft'' 1)"
  "createTradeSchema (order_body ''buy'' 1 ''aapl'' 50)"
  by (simp_all add: createTradeSchema_def order_body_def joi_number_def joi_integer_def
      joi_string_def)

lemma order_body_reads:
  "int_of (b_user_id (order_body ty (of_int i) s n)) = i"
  "int_of (b_shares (order_body ty u s (of_int k))) = k"
  "num_of (b_price (order_body ty u s n)) = 150.25"
  by (simp_all add: order_body_def int_of_def num_of_def)

lemma ascii_upper_char_not_lower: "\<not> is_lower (ascii_upper_char c)"
  by (simp add: is_lower_def ascii_upper_char_def split: option.splits)

lemma no_lower_after_upper:
  "list_all (\<lambda>c. \<not> is_lower c) (map ascii_upper_char s)"
  by (induction s) (simp_all add: ascii_upper_char_not_lower)

lemma ref_libs_upper_contract: "upper_contract ref_libs"
  by (simp add: upper_contract_def ref_libs_def)

text \<open>
  Claim C3, as the code has it. For every authenticated \<open>POST /trades\<close>: a body with
  any of the listed violations, or any other violation of the schema, fails with 400
  \<open>Validation failed\<close> and the stores are untouched; a valid body whose \<open>user_id\<close> is
  the id of a stored account is persisted under the next trade id, its symbol being
  what the runtime's \<open>toUpperCase\<close> returns for the symbol of the body, with the clock
  reading of the write as its creation instant, and the whole record comes back with
  status 201, the instant as a whole number of milliseconds. A valid body whose
  \<open>user_id\<close> is the id of no stored account is refused by the foreign key of the trade
  table: the response is 500 and no trade is written. For a symbol of ASCII
  characters the stored and returned symbol is known in full: its letters \<open>a\<close> to
  \<open>z\<close> are replaced by \<open>A\<close> to \<open>Z\<close>, nothing else changes, and no lower-case
  letter is left.
\<close>

theorem post_trades_outcomes:
  assumes "authenticateToken lib ev now h = Inr dec"
  shows "(spec_violation b \<or> \<not> createTradeSchema b \<longrightarrow>
            post_trades lib ev now db h b = (error_response 400 ''Validation failed'', db)) \<and>
         (createTradeSchema b \<and> user_findUnique_id db (int_of (b_user_id b)) \<noteq> None \<longrightarrow>
            (\<exists>ty s. b_type b = Some (JStr ty) \<and> b_symbol b = Some (JStr s) \<and>
               b_user_id b = Some (JNum (of_int (int_of (b_user_id b)))) \<and>
               b_shares b = Some (JNum (of_int (int_of (b_shares b)))) \<and>
               b_price b = Some (JNum (num_of (b_price b))) \<and>
               post_trades lib ev now db h b =
                 (\<lparr>status = 201,
                   body = JObj [(''id'', JNum (of_int (trade_seq db))),
                                (''type'', JStr ty),
                                (''user_id'', JNum (of_int (int_of (b_user_id b)))),
                                (''symbol'', JStr (toUpperCase lib s)),
                                (''shares'', JNum (of_int (int_of (b_shares b)))),
                                (''price'', JNum (num_of (b_price b))),
                                (''timestamp'', JNum (of_nat now))]\<rparr>,
                  db\<lparr>trades := trades db @
                         [\<lparr>t_id = trade_seq db, t_type = ty, t_userId = int_of (b_user_id b),
                           t_symbol = toUpperCase lib s, t_shares = int_of (b_shares b),
                           t_price = num_of (b_price b), t_timestamp = now\<rparr>],
                     trade_seq := trade_seq db + 1\<rparr>))) \<and>
         (createTradeSchema b \<and> user_findUnique_id db (int_of (b_user_id b)) = None \<longrightarrow>
            status (fst (post_trades lib ev now db h b)) = 500 \<and>
            snd (post_trades lib ev now db h b) = db) \<and>
         (\<forall>s. upper_contract lib \<and> is_ascii s \<and> createTradeSchema b \<and>
              b_symbol b = Some (JStr s) \<and>
              user_findUnique_id db (int_of (b_user_id b)) \<noteq> None \<longrightarrow>
            (\<exists>t. snd (post_trades lib ev now db h b) =
                   db\<lparr>trades := trades db @ [t], trade_seq := trade_seq db + 1\<rparr> \<and>
                 body (fst (post_trades lib ev now db h b)) = responseTradeData t \<and>
                 t_symbol t = map ascii_upper_char s \<and>
                 list_all (\<lambda>c. \<not> is_lower c) (t_symbol t)))"
proof -
  have A: "spec_violation b \<or> \<not> createTradeSchema b \<longrightarrow>
      post_trades lib ev now db h b = (error_response 400 ''Validation failed'', db)"
  proof
    assume "spec_violation b \<or> \<not> createTradeSchema b"
    then have "\<not> createTradeSchema b" using spec_violation_invalid by blast
    with assms show "post_trades lib ev now db h b = (error_response 400 ''Validation failed'', db)"
      by (simp add: post_trades_def validate_def)
  qed
  have B: "createTradeSchema b \<and> user_findUnique_id db (int_of (b_user_id b)) \<noteq> None \<longrightarrow>
            (\<exists>ty s. b_type b = Some (JStr ty) \<and> b_symbol b = Some (JStr s) \<and>
               b_user_id b = Some (JNum (of_int (int_of (b_user_id b)))) \<and>
               b_shares b = Some (JNum (of_int (int_of (b_shares b)))) \<and>
               b_price b = Some (JNum (num_of (b_price b))) \<and>
               post_trades lib ev now db h b =
                 (\<lparr>status = 201,
                   body = JObj [(''id'', JNum (of_int (trade_seq db))),
                                (''type'', JStr ty),
                                (''user_id'', JNum (of_int (int_of (b_user_id b)))),
                                (''symbol'', JStr (toUpperCase lib s)),
                                (''shares'', JNum (of_int (int_of (b_shares b)))),
                                (''price'', JNum (num_of (b_price b))),
                                (''timestamp'', JNum (of_nat now))]\<rparr>,
                  db\<lparr>trades := trades db @
                         [\<lparr>t_id = trade_seq db, t_type = ty, t_userId = int_of (b_user_id b),
                           t_symbol = toUpperCase lib s, t_shares = int_of (b_shares b),
                           t_price = num_of (b_price b), t_timestamp = now\<rparr>],
                     trade_seq := trade_seq db + 1\<rparr>))"
  proof
    assume a: "createTradeSchema b \<and> user_findUnique_id db (int_of (b_user_id b)) \<noteq> None"
    then have k: "user_findUnique_id db (int_of (b_user_id b)) \<noteq> None" by simp
    from a have f: "b_type b = Some (JStr (str_of (b_type b)))"
        "b_symbol b = Some (JStr (str_of (b_symbol b)))"
        "b_user_id b = Some (JNum (of_int (int_of (b_user_id b))))"
        "b_shares b = Some (JNum (of_int (int_of (b_shares b))))"
        "b_price b = Some (JNum (num_of (b_price b)))"
      using createTradeSchema_fields [of b] by simp_all
    have "post_trades lib ev now db h b = post_trades_handler lib ev now db b"
      using assms a by (simp add: post_trades_def validate_def)
    with f show "\<exists>ty s. b_type b = Some (JStr ty) \<and> b_symbol b = Some (JStr s) \<and>
               b_user_id b = Some (JNum (of_int (int_of (b_user_id b)))) \<and>
               b_shares b = Some (JNum (of_int (int_of (b_shares b)))) \<and>
               b_price b = Some (JNum (num_of (b_price b))) \<and>
               post_trades lib ev now db h b =
                 (\<lparr>status = 201,
                   body = JObj [(''id'', JNum (of_int (trade_seq db))),
                                (''type'', JStr ty),
                                (''user_id'', JNum (of_int (int_of (b_user_id b)))),
                                (''symbol'', JStr (toUpperCase lib s)),
                                (''shares'', JNum (of_int (int_of (b_shares b)))),
                                (''price'', JNum (num_of (b_price b))),
                                (''timestamp'', JNum (of_nat now))]\<rparr>,
                  db\<lparr>trades := trades db @
                         [\<lparr>t_id = trade_seq db, t_type = ty, t_userId = int_of (b_user_id b),
                           t_symbol = toUpperCase lib s, t_shares = int_of (b_shares b),
                           t_price = num_of (b_price b), t_timestamp = now\<rparr>],
                     trade_seq := trade_seq db + 1\<rparr>)"
      by (intro exI [of _ "str_of (b_type b)"] exI [of _ "str_of (b_symbol b)"])
         (simp add: post_trades_handler_known [OF k] responseTradeData_def)
  qed
  have C: "createTradeSchema b \<and> user_findUnique_id db (int_of (b_user_id b)) = None \<longrightarrow>
            status (fst (post_trades lib ev now db h b)) = 500 \<and>
            snd (post_trades lib ev now db h b) = db"
  proof
    assume a: "createTradeSchema b \<and> user_findUnique_id db (int_of (b_user_id b)) = None"
    have "post_trades lib ev now db h b = post_trades_handler lib ev now db b"
      using assms a by (simp add: post_trades_def validate_def)
    with a show "status (fst (post_trades lib ev now db h b)) = 500 \<and>
            snd (post_trades lib ev now db h b) = db"
      by (simp add: post_trades_handler_unknown errorHandler_P2003)
  qed
  have D: "\<forall>s. upper_contract lib \<and> is_ascii s \<and> createTradeSchema b \<and>
              b_symbol b = Some (JStr s) \<and>
              user_findUnique_id db (int_of (b_user_id b)) \<noteq> None \<longrightarrow>
            (\<exists>t. snd (post_trades lib ev now db h b) =
                   db\<lparr>trades := trades db @ [t], trade_seq := trade_seq db + 1\<rparr> \<and>
                 body (fst (post_trades lib ev now db h b)) = responseTradeData t \<and>
                 t_symbol t = map ascii_upper_char s \<and>
                 list_all (\<lambda>c. \<not> is_lower c) (t_symbol t))"
  proof (intro allI impI)
    fix s
    assume a: "upper_contract lib \<and> is_ascii s \<and> createTradeSchema b \<and>
              b_symbol b = Some (JStr s) \<and>
              user_findUnique_id db (int_of (b_user_id b)) \<noteq> None"
    let ?t = "\<lparr>t_id = trade_seq db, t_type = str_of (b_type b),
               t_userId = int_of (b_user_id b),
               t_symbol = toUpperCase lib (str_of (b_symbol b)),
               t_shares = int_of (b_shares b), t_price = num_of (b_price b),
               t_timestamp = now\<rparr>"
    from a have k: "user_findUnique_id db (int_of (b_user_id b)) \<noteq> None" by blast
    from a have v: "createTradeSchema b" by blast
    from a have sy: "str_of (b_symbol b) = s" by (simp add: str_of_def)
    from a have up: "toUpperCase lib s = map ascii_upper_char s"
      unfolding upper_contract_def by blast
    have "post_trades lib ev now db h b = post_trades_handler lib ev now db b"
      using assms v by (simp add: post_trades_def validate_def)
    then have r: "post_trades lib ev now db h b =
        (\<lparr>status = 201, body = responseTradeData ?t\<rparr>,
         db\<lparr>trades := trades db @ [?t], trade_seq := trade_seq db + 1\<rparr>)"
      by (simp only: post_trades_handler_known [OF k])
    have "snd (post_trades lib ev now db h b) =
            db\<lparr>trades := trades db @ [?t], trade_seq := trade_seq db + 1\<rparr> \<and>
          body (fst (post_trades lib ev now db h b)) = responseTradeData ?t \<and>
          t_symbol ?t = map ascii_upper_char s \<and>
          list_all (\<lambda>c. \<not> is_lower c) (t_symbol ?t)"
      by (simp add: r sy up no_lower_after_upper)
    then show "\<exists>t. snd (post_trades lib ev now db h b) =
                   db\<lparr>trades := trades db @ [t], trade_seq := trade_seq db + 1\<rparr> \<and>
                 body (fst (post_trades lib ev now db h b)) = responseTradeData t \<and>
                 t_symbol t = map ascii_upper_char s \<and>
                 list_all (\<lambda>c. \<not> is_lower c) (t_symbol t)"
      by (rule exI [of _ ?t])
  qed
  show ?thesis by (rule conjI [OF A conjI [OF B conjI [OF C D]]])
qed

text \<open>
  The three outcomes on the store with one account: 150 shares, 0 shares, a direction
  that is neither "buy" nor "sell", a price of zero and a missing symbol are refused;
  100 shares of \<open>aapl\<close> are stored as \<open>AAPL\<close>; a valid request for account 2,
  which does not exist, writes nothing.
\<close>

theorem post_trades_outcomes_witness:
  "post_trades ref_libs ref_env 1000 db1 (ref_headers 1) (order_body ''buy'' 1 ''aapl'' 150) =
     (error_response 400 ''Validation failed'', db1) \<and>
   post_trades ref_libs ref_env 1000 db1 (ref_headers 1) (order_body ''buy'' 1 ''aapl'' 0) =
     (error_response 400 ''Validation failed'', db1) \<and>
   post_trades ref_libs ref_env 1000 db1 (ref_headers 1) (order_body ''hold'' 1 ''aapl'' 50) =
     (error_response 400 ''Validation failed'', db1) \<and>
   post_trades ref_libs ref_env 1000 db1 (ref_headers 1)
       ((order_body ''buy'' 1 ''aapl'' 50)\<lparr>b_price := Some (JNum 0)\<rparr>) =
     (error_response 400 ''Validation failed'', db1) \<and>
   post_trades ref_libs ref_env 1000 db1 (ref_headers 1)
       ((order_body ''buy'' 1 ''aapl'' 50)\<lparr>b_symbol := None\<rparr>) =
     (error_response 400 ''Validation failed'', db1) \<and>
   post_trades ref_libs ref_env 1000 db1 (ref_headers 1) (order_body ''buy'' 1 ''aapl'' 100) =
     (\<lparr>status = 201,
       body = JObj [(''id'', JNum 1), (''type'', JStr ''buy''), (''user_id'', JNum 1),
                    (''symbol'', JStr ''AAPL''), (''shares'', JNum 100),
                    (''price'', JNum 150.25), (''timestamp'', JNum 1000)]\<rparr>,
      db1\<lparr>trades := [\<lparr>t_id = 1, t_type = ''buy'', t_userId = 1, t_symbol = ''AAPL'',
                        t_shares = 100, t_price = 150.25, t_timestamp = 1000\<rparr>],
          trade_seq := 2\<rparr>) \<and>
   status (fst (post_trades ref_libs ref_env 1000 db1 (ref_headers 1)
                  (order_body ''sell'' 2 ''msft'' 1))) = 500 \<and>
   snd (post_trades ref_libs ref_env 1000 db1 (ref_headers 1)
          (order_body ''sell'' 2 ''msft'' 1)) = db1 \<and>
   (\<exists>t. snd (post_trades ref_libs ref_env 1000 db1 (ref_headers 1)
               (order_body ''buy'' 1 ''aapl'' 100)) =
          db1\<lparr>trades := trades db1 @ [t], trade_seq := trade_seq db1 + 1\<rparr> \<and>
        t_symbol t = ''AAPL'')"
proof -
  have g: "authenticateToken ref_libs ref_env 1000 (ref_headers 1) =
      Inr \<lparr>d_userId = 1, d_email = Some ''a@b.com'', d_iat = 0, d_exp = 600\<rparr>"
    by (rule ref_headers_pass_at) simp
  note T = post_trades_outcomes [OF g]
  have v1: "spec_violation (order_body ''buy'' 1 ''aapl'' 150)"
    by (simp add: spec_violation_def order_body_def)
  have v2: "spec_violation (order_body ''buy'' 1 ''aapl'' 0)"
    by (simp add: spec_violation_def order_body_def)
  have v3: "spec_violation (order_body ''hold'' 1 ''aapl'' 50)"
    by (simp add: spec_violation_def order_body_def)
  have v4: "spec_violation ((order_body ''buy'' 1 ''aapl'' 50)\<lparr>b_price := Some (JNum 0)\<rparr>)"
    by (simp add: spec_violation_def order_body_def)
  have v5: "spec_violation ((order_body ''buy'' 1 ''aapl'' 50)\<lparr>b_symbol := None\<rparr>)"
    by (simp add: spec_violation_def order_body_def)
  have k1: "user_findUnique_id db1 (int_of (b_user_id (order_body ''buy'' 1 ''aapl'' 100))) \<noteq> None"
    using order_body_reads(1) [of "''buy''" 1 "''aapl''" 100]
    by (simp add: user_findUnique_id_def db1_def)
  have k2: "user_findUnique_id db1 (int_of (b_user_id (order_body ''sell'' 2 ''msft'' 1))) = None"
    using order_body_reads(1) [of "''sell''" 2 "''msft''" 1]
    by (simp add: user_findUnique_id_def db1_def)
  have up: "toUpperCase ref_libs ''aapl'' = ''AAPL''"
    by (simp add: ref_libs_def ascii_upper_char_def)
  let ?b = "order_body ''buy'' 1 ''aapl'' 100"
  from T [of ?b db1, THEN conjunct2, THEN conjunct1] order_body_valid(1) k1
  obtain ty s where
    ty: "b_type ?b = Some (JStr ty)" and s: "b_symbol ?b = Some (JStr s)" and
    r: "post_trades ref_libs ref_env 1000 db1 (ref_headers 1) ?b =
         (\<lparr>status = 201,
           body = JObj [(''id'', JNum (of_int (trade_seq db1))),
                        (''type'', JStr ty),
                        (''user_id'', JNum (of_int (int_of (b_user_id ?b)))),
                        (''symbol'', JStr (toUpperCase ref_libs s)),
                        (''shares'', JNum (of_int (int_of (b_shares ?b)))),
                        (''price'', JNum (num_of (b_price ?b))),
                        (''timestamp'', JNum (of_nat 1000))]\<rparr>,
          db1\<lparr>trades := trades db1 @
                 [\<lparr>t_id = trade_seq db1, t_type = ty, t_userId = int_of (b_user_id ?b),
                   t_symbol = toUpperCase ref_libs s, t_shares = int_of (b_shares ?b),
                   t_price = num_of (b_price ?b), t_timestamp = 1000\<rparr>],
             trade_seq := trade_seq db1 + 1\<rparr>)"
    by blast
  from ty have ty': "ty = ''buy''" by (simp add: order_body_def)
  from s have s': "s = ''aapl''" by (simp add: order_body_def)
  have w6: "post_trades ref_libs ref_env 1000 db1 (ref_headers 1) ?b =
     (\<lparr>status = 201,
       body = JObj [(''id'', JNum 1), (''type'', JStr ''buy''), (''user_id'', JNum 1),
                    (''symbol'', JStr ''AAPL''), (''shares'', JNum 100),
                    (''price'', JNum 150.25), (''timestamp'', JNum 1000)]\<rparr>,
      db1\<lparr>trades := [\<lparr>t_id = 1, t_type = ''buy'', t_userId = 1, t_symbol = ''AAPL'',
                        t_shares = 100, t_price = 150.25, t_timestamp = 1000\<rparr>],
          trade_seq := 2\<rparr>)"
    unfolding r ty' s' up
    using order_body_reads(1) [of "''buy''" 1 "''aapl''" 100]
      order_body_reads(2) [of "''buy''" 1 "''aapl''" 100]
      order_body_reads(3) [of "''buy''" 1 "''aapl''" 100]
    by (simp add: db1_def)
  have w1: "post_trades ref_libs ref_env 1000 db1 (ref_headers 1) (order_body ''buy'' 1 ''aapl'' 150) =
     (error_response 400 ''Validation failed'', db1)"
    using T [of "order_body ''buy'' 1 ''aapl'' 150" db1, THEN conjunct1] v1 by simp
  have w2: "post_trades ref_libs ref_env 1000 db1 (ref_headers 1) (order_body ''buy'' 1 ''aapl'' 0) =
     (error_response 400 ''Validation failed'', db1)"
    using T [of "order_body ''buy'' 1 ''aapl'' 0" db1, THEN conjunct1] v2 by simp
  have w3: "post_trades ref_libs ref_env 1000 db1 (ref_headers 1) (order_body ''hold'' 1 ''aapl'' 50) =
     (error_response 400 ''Validation failed'', db1)"
    using T [of "order_body ''hold'' 1 ''aapl'' 50" db1, THEN conjunct1] v3 by simp
  have w4: "post_trades ref_libs ref_env 1000 db1 (ref_headers 1)
       ((order_body ''buy'' 1 ''aapl'' 50)\<lparr>b_price := Some (JNum 0)\<rparr>) =
     (error_response 400 ''Validation failed'', db1)"
    using T [of "(order_body ''buy'' 1 ''aapl'' 50)\<lparr>b_price := Some (JNum 0)\<rparr>" db1, THEN conjunct1]
      v4 by simp
  have w5: "post_trades ref_libs ref_env 1000 db1 (ref_headers 1)
       ((order_body ''buy'' 1 ''aapl'' 50)\<lparr>b_symbol := None\<rparr>) =
     (error_response 400 ''Validation failed'', db1)"
    using T [of "(order_body ''buy'' 1 ''aapl'' 50)\<lparr>b_symbol := None\<rparr>" db1, THEN conjunct1]
      v5 by simp
  have w7: "status (fst (post_trades ref_libs ref_env 1000 db1 (ref_headers 1)
                  (order_body ''sell'' 2 ''msft'' 1))) = 500 \<and>
     snd (post_trades ref_libs ref_env 1000 db1 (ref_headers 1)
          (order_body ''sell'' 2 ''msft'' 1)) = db1"
    using T [of "order_body ''sell'' 2 ''msft'' 1" db1, THEN conjunct2, THEN conjunct2]
      order_body_valid(3) k2 by simp
  have a: "is_ascii ''aapl''" by (simp add: is_ascii_def)
  have sy: "b_symbol ?b = Some (JStr ''aapl'')" by (simp add: order_body_def)
  have m: "map ascii_upper_char ''aapl'' = ''AAPL''" by (simp add: ascii_upper_char_def)
  from T [of ?b db1, THEN conjunct2, THEN conjunct2, THEN conjunct2, rule_format,
      of "''aapl''"] ref_libs_upper_contract a order_body_valid(1) sy k1
  obtain t where
    "snd (post_trades ref_libs ref_env 1000 db1 (ref_headers 1) ?b) =
       db1\<lparr>trades := trades db1 @ [t], trade_seq := trade_seq db1 + 1\<rparr>"
    "t_symbol t = map ascii_upper_char ''aapl''"
    by blast
  then have w8: "\<exists>t. snd (post_trades ref_libs ref_env 1000 db1 (ref_headers 1) ?b) =
          db1\<lparr>trades := trades db1 @ [t], trade_seq := trade_seq db1 + 1\<rparr> \<and>
        t_symbol t = ''AAPL''"
    unfolding m by blast
  show ?thesis
    by (intro conjI w1 w2 w3 w4 w5 w6 w7 [THEN conjunct1] w7 [THEN conjunct2] w8)
qed

text \<open>
  The claim says that every valid body is persisted. A valid body naming account 999,
  sent by an authenticated caller to the store whose only account is 1, is answered
  with 500 and the store is left as it was.
\<close>

theorem unknown_account_counterexample:
  "createTradeSchema (order_body ''buy'' 999 ''aapl'' 50) \<and>
   \<not> spec_violation (order_body ''buy'' 999 ''aapl'' 50) \<and>
   authenticateToken ref_libs ref_env 1000 (ref_headers 1) =
     Inr \<lparr>d_userId = 1, d_email = Some ''a@b.com'', d_iat = 0, d_exp = 600\<rparr> \<and>
   post_trades ref_libs ref_env 1000 db1 (ref_headers 1) (order_body ''buy'' 999 ''aapl'' 50) =
     (\<lparr>status = 500,
       body = JObj [(''error'', JStr ''Foreign key constraint failed on the field: `user_id`'')]\<rparr>,
      db1)"
proof -
  have g: "authenticateToken ref_libs ref_env 1000 (ref_headers 1) =
      Inr \<lparr>d_userId = 1, d_email = Some ''a@b.com'', d_iat = 0, d_exp = 600\<rparr>"
    by (rule ref_headers_pass_at) simp
  have v: "\<not> spec_violation (order_body ''buy'' 999 ''aapl'' 50)"
    by (simp add: spec_violation_def order_body_def)
  have k: "user_findUnique_id db1 (int_of (b_user_id (order_body ''buy'' 999 ''aapl'' 50))) = None"
    using order_body_reads(1) [of "''buy''" 999 "''aapl''" 50]
    by (simp add: user_findUnique_id_def db1_def)
  have "post_trades ref_libs ref_env 1000 db1 (ref_headers 1) (order_body ''buy'' 999 ''aapl'' 50) =
     (\<lparr>status = 500,
       body = JObj [(''error'', JStr ''Foreign key constraint failed on the field: `user_id`'')]\<rparr>,
      db1)"
    using g order_body_valid(2) k
    by (simp add: post_trades_def validate_def post_trades_handler_unknown errorHandler_def
        prisma_error_def ref_env_def)
  with g v order_body_valid(2) show ?thesis by simp
qed

text \<open>
  Claim C10, as the code has it. Trade creation never consults the caller's identity:
  for every authenticated \<open>POST /trades\<close> with a valid body whose \<open>user_id\<close> is the
  id of a stored account, the outcome is the same whatever claims the caller's token
  carries, and the persisted and returned trade's owner is the \<open>user_id\<close> of the
  body. A caller can so attribute a trade to any stored account, not only to the
  caller's own.
\<close>

theorem trade_owner_is_body_user_id:
  assumes "authenticateToken lib ev now h1 = Inr d1"
    and "authenticateToken lib ev now h2 = Inr d2"
    and "createTradeSchema b"
    and "user_findUnique_id db (int_of (b_user_id b)) \<noteq> None"
  shows "post_trades lib ev now db h1 b = post_trades lib ev now db h2 b \<and>
         (\<exists>t. status (fst (post_trades lib ev now db h1 b)) = 201 \<and>
              body (fst (post_trades lib ev now db h1 b)) = responseTradeData t \<and>
              snd (post_trades lib ev now db h1 b) =
                db\<lparr>trades := trades db @ [t], trade_seq := trade_seq db + 1\<rparr> \<and>
              b_user_id b = Some (JNum (of_int (t_userId t))))"
proof -
  let ?t = "\<lparr>t_id = trade_seq db, t_type = str_of (b_type b),
             t_userId = int_of (b_user_id b),
             t_symbol = toUpperCase lib (str_of (b_symbol b)),
             t_shares = int_of (b_shares b), t_price = num_of (b_price b),
             t_timestamp = now\<rparr>"
  have p1: "post_trades lib ev now db h1 b = post_trades_handler lib ev now db b"
    using assms(1,3) by (simp add: post_trades_def validate_def)
  have p2: "post_trades lib ev now db h2 b = post_trades_handler lib ev now db b"
    using assms(2,3) by (simp add: post_trades_def validate_def)
  have u: "b_user_id b = Some (JNum (of_int (t_userId ?t)))"
    using createTradeSchema_fields [OF assms(3)] by simp
  have "status (fst (post_trades lib ev now db h1 b)) = 201 \<and>
        body (fst (post_trades lib ev now db h1 b)) = responseTradeData ?t \<and>
        snd (post_trades lib ev now db h1 b) =
          db\<lparr>trades := trades db @ [?t], trade_seq := trade_seq db + 1\<rparr>"
    by (simp add: p1 post_trades_handler_known [OF assms(4)])
  with u have "\<exists>t. status (fst (post_trades lib ev now db h1 b)) = 201 \<and>
              body (fst (post_trades lib ev now db h1 b)) = responseTradeData t \<and>
              snd (post_trades lib ev now db h1 b) =
                db\<lparr>trades := trades db @ [t], trade_seq := trade_seq db + 1\<rparr> \<and>
              b_user_id b = Some (JNum (of_int (t_userId t)))"
    by (intro exI [of _ ?t]) blast
  with p1 p2 show ?thesis by simp
qed

text \<open>A caller whose token names account 7 creates a trade of account 1.\<close>

theorem trade_owner_is_body_user_id_witness:
  "authenticateToken ref_libs ref_env 1000 (ref_headers 7) =
     Inr \<lparr>d_userId = 7, d_email = Some ''a@b.com'', d_iat = 0, d_exp = 600\<rparr> \<and>
   post_trades ref_libs ref_env 1000 db1 (ref_headers 7) (order_body ''buy'' 1 ''aapl'' 50) =
     post_trades ref_libs ref_env 1000 db1 (ref_headers 1) (order_body ''buy'' 1 ''aapl'' 50) \<and>
   (\<exists>t. status (fst (post_trades ref_libs ref_env 1000 db1 (ref_headers 7)
                        (order_body ''buy'' 1 ''aapl'' 50))) = 201 \<and>
        body (fst (post_trades ref_libs ref_env 1000 db1 (ref_headers 7)
                        (order_body ''buy'' 1 ''aapl'' 50))) = responseTradeData t \<and>
        snd (post_trades ref_libs ref_env 1000 db1 (ref_headers 7)
                        (order_body ''buy'' 1 ''aapl'' 50)) =
          db1\<lparr>trades := trades db1 @ [t], trade_seq := trade_seq db1 + 1\<rparr> \<and>
        t_userId t = 1)"
proof -
  have g7: "authenticateToken ref_libs ref_env 1000 (ref_headers 7) =
      Inr \<lparr>d_userId = 7, d_email = Some ''a@b.com'', d_iat = 0, d_exp = 600\<rparr>"
    by (rule ref_headers_pass_at) simp
  have g1: "authenticateToken ref_libs ref_env 1000 (ref_headers 1) =
      Inr \<lparr>d_userId = 1, d_email = Some ''a@b.com'', d_iat = 0, d_exp = 600\<rparr>"
    by (rule ref_headers_pass_at) simp
  have k: "user_findUnique_id db1 (int_of (b_user_id (order_body ''buy'' 1 ''aapl'' 50))) \<noteq> None"
    using order_body_reads(1) [of "''buy''" 1 "''aapl''" 50]
    by (simp add: user_findUnique_id_def db1_def)
  have u: "b_user_id (order_body ''buy'' 1 ''aapl'' 50) = Some (JNum 1)"
    by (simp add: order_body_def)
  from trade_owner_is_body_user_id [OF g7 g1 order_body_valid(4) k] g7 u
  show ?thesis by auto
qed

text \<open>
  The claim says that a caller can attribute a trade to any positive-integer account id.
  The caller holding the token of account 1 asks for a trade of account 2, which is not
  in the store: no trade is created.
\<close>

theorem any_account_id_counterexample:
  "createTradeSchema (order_body ''sell'' 2 ''msft'' 1) \<and>
   authenticateToken ref_libs ref_env 1000 (ref_headers 1) =
     Inr \<lparr>d_userId = 1, d_email = Some ''a@b.com'', d_iat = 0, d_exp = 600\<rparr> \<and>
   status (fst (post_trades ref_libs ref_env 1000 db1 (ref_headers 1)
                  (order_body ''sell'' 2 ''msft'' 1))) = 500 \<and>
   trades (snd (post_trades ref_libs ref_env 1000 db1 (ref_headers 1)
                  (order_body ''sell'' 2 ''msft'' 1))) = []"
proof -
  have g: "authenticateToken ref_libs ref_env 1000 (ref_headers 1) =
      Inr \<lparr>d_userId = 1, d_email = Some ''a@b.com'', d_iat = 0, d_exp = 600\<rparr>"
    by (rule ref_headers_pass_at) simp
  have k: "user_findUnique_id db1 (int_of (b_user_id (order_body ''sell'' 2 ''msft'' 1))) = None"
    using order_body_reads(1) [of "''sell''" 2 "''msft''" 1]
    by (simp add: user_findUnique_id_def db1_def)
  have "post_trades ref_libs ref_env 1000 db1 (ref_headers 1) (order_body ''sell'' 2 ''msft'' 1) =
      (errorHandler ref_env
        (prisma_error ''P2003'' ''Foreign key constraint failed on the field: `user_id`''), db1)"
    using g order_body_valid(3) k
    by (simp add: post_trades_def validate_def post_trades_handler_unknown)
  with g order_body_valid(3) show ?thesis
    by (simp add: errorHandler_P2003 db1_def)
qed

section \<open>Listing trades\<close>

lemma list_item_eq: "list_item t = responseTradeData t"
  by (simp add: list_item_def responseTradeData_def)

lemma matches_build_where:
  assumes "tradeQuerySchema q"
  shows "matches (build_where q) t \<longleftrightarrow>
     (q_type q = None \<or> q_type q = Some (JStr (t_type t))) \<and>
     (q_user_id q = None \<or> q_user_id q = Some (JNum (of_int (t_userId t))))"
proof -
  have ty: "(case w_type (build_where q) of None \<Rightarrow> True | Some ty \<Rightarrow> t_type t = ty) \<longleftrightarrow>
      (q_type q = None \<or> q_type q = Some (JStr (t_type t)))"
    using assms by (auto simp: tradeQuerySchema_def build_where_def str_of_def)
  have us: "(case w_userId (build_where q) of None \<Rightarrow> True | Some i \<Rightarrow> t_userId t = i) \<longleftrightarrow>
      (q_user_id q = None \<or> q_user_id q = Some (JNum (of_int (t_userId t))))"
  proof (cases "q_user_id q")
    case None
    then show ?thesis by (simp add: build_where_def num_of_def)
  next
    case (Some v)
    with assms obtain r where r: "v = JNum r" "joi_integer r" "0 < r"
      by (auto simp: tradeQuerySchema_def joi_number_def
          split: option.splits json.splits if_splits)
    have "t_userId t = \<lfloor>r\<rfloor> \<longleftrightarrow> r = of_int (t_userId t)"
      using r(2) by (auto simp: joi_integer_def)
    with Some r show ?thesis by (simp add: build_where_def num_of_def int_of_def)
  qed
  from ty us show ?thesis by (simp add: matches_def)
qed

text \<open>
  Claim C9. For every authenticated \<open>GET /trades\<close> whose optional \<open>type\<close> and
  \<open>user_id\<close> filters pass the query schema, the response is 200 with an array that
  holds exactly the stored trades matching every supplied filter (all of them when no
  filter is supplied), each once per stored record, in ascending order of id, and each
  element shaped as the create response shapes a trade, the timestamp a whole number of
  milliseconds. In particular, on a store without trades, after one "buy" and one "sell"
  have been created for the same account, the list filtered by \<open>type=buy\<close> is
  exactly the response body of the "buy" creation.
\<close>

theorem get_trades_result:
  assumes "authenticateToken lib ev now h = Inr dec"
  shows "(tradeQuerySchema q \<longrightarrow>
           (\<exists>ts. get_trades lib ev now db h q =
                   \<lparr>status = 200, body = JArr (map responseTradeData ts)\<rparr> \<and>
                 mset ts =
                   mset (filter
                     (\<lambda>t. (q_type q = None \<or> q_type q = Some (JStr (t_type t))) \<and>
                          (q_user_id q = None \<or>
                           q_user_id q = Some (JNum (of_int (t_userId t)))))
                     (trades db)) \<and>
                 sorted (map t_id ts))) \<and>
         (\<forall>b1 b2 h1 h2 now1 now2 d1 d2.
            trades db = [] \<and>
            authenticateToken lib ev now1 h1 = Inr d1 \<and>
            authenticateToken lib ev now2 h2 = Inr d2 \<and>
            createTradeSchema b1 \<and> createTradeSchema b2 \<and>
            b_type b1 = Some (JStr ''buy'') \<and> b_type b2 = Some (JStr ''sell'') \<and>
            b_user_id b1 = b_user_id b2 \<and>
            user_findUnique_id db (int_of (b_user_id b1)) \<noteq> None \<longrightarrow>
            get_trades lib ev now
                (snd (post_trades lib ev now2 (snd (post_trades lib ev now1 db h1 b1)) h2 b2))
                h \<lparr>q_type = Some (JStr ''buy''), q_user_id = None\<rparr> =
              \<lparr>status = 200, body = JArr [body (fst (post_trades lib ev now1 db h1 b1))]\<rparr>)"
proof -
  have A: "tradeQuerySchema q \<longrightarrow>
           (\<exists>ts. get_trades lib ev now db h q =
                   \<lparr>status = 200, body = JArr (map responseTradeData ts)\<rparr> \<and>
                 mset ts =
                   mset (filter
                     (\<lambda>t. (q_type q = None \<or> q_type q = Some (JStr (t_type t))) \<and>
                          (q_user_id q = None \<or>
                           q_user_id q = Some (JNum (of_int (t_userId t)))))
                     (trades db)) \<and>
                 sorted (map t_id ts))"
  proof
    assume v: "tradeQuerySchema q"
    let ?ts = "trade_findMany db (build_where q)"
    have 1: "get_trades lib ev now db h q =
        \<lparr>status = 200, body = JArr (map responseTradeData ?ts)\<rparr>"
      using assms v
      by (simp add: get_trades_def validate_def get_trades_handler_def list_item_eq)
    have "filter (matches (build_where q)) (trades db) =
        filter (\<lambda>t. (q_type q = None \<or> q_type q = Some (JStr (t_type t))) \<and>
                    (q_user_id q = None \<or> q_user_id q = Some (JNum (of_int (t_userId t)))))
          (trades db)"
      by (rule filter_cong) (simp_all add: matches_build_where [OF v])
    then have 2: "mset ?ts =
        mset (filter (\<lambda>t. (q_type q = None \<or> q_type q = Some (JStr (t_type t))) \<and>
                    (q_user_id q = None \<or> q_user_id q = Some (JNum (of_int (t_userId t)))))
          (trades db))"
      by (simp add: trade_findMany_def)
    have 3: "sorted (map t_id ?ts)" by (simp add: trade_findMany_def)
    from 1 2 3 show "\<exists>ts. get_trades lib ev now db h q =
                   \<lparr>status = 200, body = JArr (map responseTradeData ts)\<rparr> \<and>
                 mset ts =
                   mset (filter
                     (\<lambda>t. (q_type q = None \<or> q_type q = Some (JStr (t_type t))) \<and>
                          (q_user_id q = None \<or>
                           q_user_id q = Some (JNum (of_int (t_userId t)))))
                     (trades db)) \<and>
                 sorted (map t_id ts)"
      by blast
  qed
  have B: "\<forall>b1 b2 h1 h2 now1 now2 d1 d2.
            trades db = [] \<and>
            authenticateToken lib ev now1 h1 = Inr d1 \<and>
            authenticateToken lib ev now2 h2 = Inr d2 \<and>
            createTradeSchema b1 \<and> createTradeSchema b2 \<and>
            b_type b1 = Some (JStr ''buy'') \<and> b_type b2 = Some (JStr ''sell'') \<and>
            b_user_id b1 = b_user_id b2 \<and>
            user_findUnique_id db (int_of (b_user_id b1)) \<noteq> None \<longrightarrow>
            get_trades lib ev now
                (snd (post_trades lib ev now2 (snd (post_trades lib ev now1 db h1 b1)) h2 b2))
                h \<lparr>q_type = Some (JStr ''buy''), q_user_id = None\<rparr> =
              \<lparr>status = 200, body = JArr [body (fst (post_trades lib ev now1 db h1 b1))]\<rparr>"
  proof (intro allI impI)
    fix b1 b2 h1 h2 now1 now2 d1 d2
    assume a: "trades db = [] \<and>
            authenticateToken lib ev now1 h1 = Inr d1 \<and>
            authenticateToken lib ev now2 h2 = Inr d2 \<and>
            createTradeSchema b1 \<and> createTradeSchema b2 \<and>
            b_type b1 = Some (JStr ''buy'') \<and> b_type b2 = Some (JStr ''sell'') \<and>
            b_user_id b1 = b_user_id b2 \<and>
            user_findUnique_id db (int_of (b_user_id b1)) \<noteq> None"
    let ?t1 = "\<lparr>t_id = trade_seq db, t_type = str_of (b_type b1),
                 t_userId = int_of (b_user_id b1),
                 t_symbol = toUpperCase lib (str_of (b_symbol b1)),
                 t_shares = int_of (b_shares b1), t_price = num_of (b_price b1),
                 t_timestamp = now1\<rparr>"
    let ?db1 = "db\<lparr>trades := trades db @ [?t1], trade_seq := trade_seq db + 1\<rparr>"
    let ?t2 = "\<lparr>t_id = trade_seq ?db1, t_type = str_of (b_type b2),
                 t_userId = int_of (b_user_id b2),
                 t_symbol = toUpperCase lib (str_of (b_symbol b2)),
                 t_shares = int_of (b_shares b2), t_price = num_of (b_price b2),
                 t_timestamp = now2\<rparr>"
    let ?db2 = "?db1\<lparr>trades := trades ?db1 @ [?t2], trade_seq := trade_seq ?db1 + 1\<rparr>"
    from a have e: "trades db = []" by blast
    from a have g1: "authenticateToken lib ev now1 h1 = Inr d1" by blast
    from a have g2: "authenticateToken lib ev now2 h2 = Inr d2" by blast
    from a have v1: "createTradeSchema b1" and v2: "createTradeSchema b2" by blast+
    from a have ty1: "b_type b1 = Some (JStr ''buy'')"
      and ty2: "b_type b2 = Some (JStr ''sell'')" by blast+
    from a have same: "b_user_id b2 = b_user_id b1" by metis
    from a have k1: "user_findUnique_id db (int_of (b_user_id b1)) \<noteq> None" by blast
    have "post_trades lib ev now1 db h1 b1 = post_trades_handler lib ev now1 db b1"
      using g1 v1 by (simp add: post_trades_def validate_def)
    then have p1: "post_trades lib ev now1 db h1 b1 =
        (\<lparr>status = 201, body = responseTradeData ?t1\<rparr>, ?db1)"
      by (simp only: post_trades_handler_known [OF k1])
    have "user_findUnique_id ?db1 (int_of (b_user_id b2)) =
        user_findUnique_id db (int_of (b_user_id b1))"
      by (simp add: user_findUnique_id_def same)
    with k1 have k2: "user_findUnique_id ?db1 (int_of (b_user_id b2)) \<noteq> None"
      by metis
    have "post_trades lib ev now2 ?db1 h2 b2 = post_trades_handler lib ev now2 ?db1 b2"
      using g2 v2 by (simp add: post_trades_def validate_def)
    then have p2: "post_trades lib ev now2 ?db1 h2 b2 =
        (\<lparr>status = 201, body = responseTradeData ?t2\<rparr>, ?db2)"
      by (simp only: post_trades_handler_known [OF k2])
    have q: "tradeQuerySchema \<lparr>q_type = Some (JStr ''buy''), q_user_id = None\<rparr>"
      by (simp add: tradeQuerySchema_def)
    have "trades ?db2 = [?t1, ?t2]" using e by simp
    moreover have "matches (build_where \<lparr>q_type = Some (JStr ''buy''), q_user_id = None\<rparr>) ?t1"
      by (simp add: matches_build_where [OF q] ty1 str_of_def)
    moreover have "\<not> matches (build_where \<lparr>q_type = Some (JStr ''buy''), q_user_id = None\<rparr>) ?t2"
      by (simp add: matches_build_where [OF q] ty2 str_of_def)
    ultimately have f:
      "trade_findMany ?db2 (build_where \<lparr>q_type = Some (JStr ''buy''), q_user_id = None\<rparr>) = [?t1]"
      by (simp only: trade_findMany_def filter.simps if_True if_False sort_key_simps insort_key.simps)
    have "get_trades lib ev now ?db2 h \<lparr>q_type = Some (JStr ''buy''), q_user_id = None\<rparr> =
        \<lparr>status = 200, body = JArr [responseTradeData ?t1]\<rparr>"
      using assms q
      by (simp only: get_trades_def validate_def get_trades_handler_def f sum.case if_True
          list.map list_item_eq)
    then show "get_trades lib ev now
                (snd (post_trades lib ev now2 (snd (post_trades lib ev now1 db h1 b1)) h2 b2))
                h \<lparr>q_type = Some (JStr ''buy''), q_user_id = None\<rparr> =
              \<lparr>status = 200, body = JArr [body (fst (post_trades lib ev now1 db h1 b1))]\<rparr>"
      by (simp only: p1 p2 snd_conv fst_conv response.simps)
  qed
  show ?thesis by (rule conjI [OF A B])
qed


text \<open>
  The list of account 1 on the store with one trade, and the scenario of the claim run
  on the store with one account.
\<close>

theorem get_trades_result_witness:
  "get_trades ref_libs ref_env 1000 db2 (ref_headers 1)
       \<lparr>q_type = None, q_user_id = Some (JNum 1)\<rparr> =
     \<lparr>status = 200, body = JArr [responseTradeData trade1]\<rparr> \<and>
   get_trades ref_libs ref_env 1000
       (snd (post_trades ref_libs ref_env 1000
               (snd (post_trades ref_libs ref_env 1000 db1 (ref_headers 1)
                       (order_body ''buy'' 1 ''aapl'' 50)))
               (ref_headers 1) (order_body ''sell'' 1 ''goog'' 25)))
       (ref_headers 1) \<lparr>q_type = Some (JStr ''buy''), q_user_id = None\<rparr> =
     \<lparr>status = 200,
      body = JArr [JObj [(''id'', JNum 1), (''type'', JStr ''buy''), (''user_id'', JNum 1),
                         (''symbol'', JStr ''AAPL''), (''shares'', JNum 50),
                         (''price'', JNum 150.25), (''timestamp'', JNum 1000)]]\<rparr>"
proof -
  have g: "authenticateToken ref_libs ref_env 1000 (ref_headers 1) =
      Inr \<lparr>d_userId = 1, d_email = Some ''a@b.com'', d_iat = 0, d_exp = 600\<rparr>"
    by (rule ref_headers_pass_at) simp
  note T = get_trades_result [OF g]
  let ?q = "\<lparr>q_type = None, q_user_id = Some (JNum 1)\<rparr>"
  have q: "tradeQuerySchema ?q"
    by (simp add: tradeQuerySchema_def joi_number_def joi_integer_def)
  from T [where q = ?q and db = db2, THEN conjunct1] q obtain ts where
    r: "get_trades ref_libs ref_env 1000 db2 (ref_headers 1) ?q =
          \<lparr>status = 200, body = JArr (map responseTradeData ts)\<rparr>" and
    m: "mset ts =
          mset (filter (\<lambda>t. (q_type ?q = None \<or> q_type ?q = Some (JStr (t_type t))) \<and>
                          (q_user_id ?q = None \<or>
                           q_user_id ?q = Some (JNum (of_int (t_userId t)))))
                 (trades db2))"
    by blast
  from m have "mset ts = {#trade1#}" by (simp add: db2_def trade1_def)
  then have "ts = [trade1]" by simp
  with r have w1: "get_trades ref_libs ref_env 1000 db2 (ref_headers 1) ?q =
      \<lparr>status = 200, body = JArr [responseTradeData trade1]\<rparr>"
    by simp
  let ?b1 = "order_body ''buy'' 1 ''aapl'' 50"
  let ?b2 = "order_body ''sell'' 1 ''goog'' 25"
  have v2: "createTradeSchema ?b2"
    by (simp add: createTradeSchema_def order_body_def joi_number_def joi_integer_def
        joi_string_def)
  have k: "user_findUnique_id db1 (int_of (b_user_id ?b1)) \<noteq> None"
    using order_body_reads(1) [of "''buy''" 1 "''aapl''" 50]
    by (simp add: user_findUnique_id_def db1_def)
  have "post_trades ref_libs ref_env 1000 db1 (ref_headers 1) ?b1 =
      post_trades_handler ref_libs ref_env 1000 db1 ?b1"
    using g order_body_valid(4) by (simp add: post_trades_def validate_def)
  then have b: "body (fst (post_trades ref_libs ref_env 1000 db1 (ref_headers 1) ?b1)) =
      JObj [(''id'', JNum 1), (''type'', JStr ''buy''), (''user_id'', JNum 1),
            (''symbol'', JStr ''AAPL''), (''shares'', JNum 50),
            (''price'', JNum 150.25), (''timestamp'', JNum 1000)]"
    using order_body_reads(1) [of "''buy''" 1 "''aapl''" 50]
      order_body_reads(2) [of "''buy''" 1 "''aapl''" 50]
      order_body_reads(3) [of "''buy''" 1 "''aapl''" 50]
    by (simp add: post_trades_handler_known [OF k] responseTradeData_def)
       (simp add: order_body_def str_of_def ref_libs_def ascii_upper_char_def db1_def)
  have "trades db1 = []" by (simp add: db1_def)
  moreover have "b_type ?b1 = Some (JStr ''buy'')" "b_type ?b2 = Some (JStr ''sell'')"
    "b_user_id ?b1 = b_user_id ?b2"
    by (simp_all add: order_body_def)
  ultimately have w2: "get_trades ref_libs ref_env 1000
       (snd (post_trades ref_libs ref_env 1000
               (snd (post_trades ref_libs ref_env 1000 db1 (ref_headers 1) ?b1))
               (ref_headers 1) ?b2))
       (ref_headers 1) \<lparr>q_type = Some (JStr ''buy''), q_user_id = None\<rparr> =
      \<lparr>status = 200,
       body = JArr [body (fst (post_trades ref_libs ref_env 1000 db1 (ref_headers 1) ?b1))]\<rparr>"
    using T [where db = db1, THEN conjunct2, rule_format,
        where ?b1.0 = ?b1 and ?b2.0 = ?b2 and ?h1.0 = "ref_headers 1" and ?h2.0 = "ref_headers 1"
          and ?now1.0 = 1000 and ?now2.0 = 1000]
      g order_body_valid(4) v2 k
    by blast
  show ?thesis by (rule conjI [OF w1 w2 [unfolded b]])
qed

end
